theory Spec2Isabelle
  imports Complex_Main "HOL-Library.Word" "HOL-Library.List_Lexorder" "HOL-Library.Multiset"
begin

unbundle bit_operations_syntax

section \<open>JavaScript values shared by the viewer scripts\<close>

text \<open>
  The repository holds four variants of the viewer script and three variants of the
  Reveal plugin. They are embedded side by side:
  \<^item> the chord-safe viewer (\<^verbatim>\<open>src/js/viewer.js\<close>, first script), suffix \<open>_cs\<close>;
  \<^item> the overlay viewer (\<^verbatim>\<open>src/js/viewer.js\<close>, second script), suffix \<open>_ov\<close>;
  \<^item> the drop-in viewer with activation gating (\<^verbatim>\<open>src/unnamed/part_002\<close>, first
    script), which keeps the source's names unchanged;
  \<^item> the note-sending viewer (\<^verbatim>\<open>src/unnamed/part_002\<close>, second script), suffix \<open>_nv\<close>;
  \<^item> the activating plugin (\<^verbatim>\<open>src/unnamed/part_000\<close>).

  A JavaScript number is a finite value or one of the three non-finite ones. Finite values
  are real numbers here, and the sign of a zero is not kept. Coordinates on the screen are
  computed exactly; the arithmetic on pitches and channels is rounded to double precision
  by \<open>binary64\<close>.
\<close>

datatype jsnumber = Finite real | NaN | PosInfinity | NegInfinity

abbreviation num :: "int \<Rightarrow> jsnumber" where
  "num n \<equiv> Finite (of_int n)"

definition Math_trunc :: "real \<Rightarrow> int" where
  "Math_trunc r = (if 0 \<le> r then \<lfloor>r\<rfloor> else \<lceil>r\<rceil>)"

text \<open>
  \<^verbatim>\<open>clampInt(n, lo, hi)\<close> of the drop-in viewer: a value that is not finite gives
  \<open>lo\<close>, every other value is truncated and clamped.
\<close>

definition clampInt :: "jsnumber \<Rightarrow> int \<Rightarrow> int \<Rightarrow> int" where
  "clampInt n lo hi =
     (case n of
        Finite r \<Rightarrow> max lo (min hi (Math_trunc r))
      | NaN \<Rightarrow> lo
      | PosInfinity \<Rightarrow> lo
      | NegInfinity \<Rightarrow> lo)"

text \<open>\<^verbatim>\<open>xs[i] || []\<close> on an array of arrays: the empty array out of range.\<close>

definition at_or_empty :: "'a list list \<Rightarrow> int \<Rightarrow> 'a list" where
  "at_or_empty xs i = (if 0 \<le> i \<and> i < int (length xs) then xs ! nat i else [])"

text \<open>\<^verbatim>\<open>data[i] || 0\<close> on the bytes of a MIDI message.\<close>

definition byte_or_zero :: "nat list \<Rightarrow> nat \<Rightarrow> nat" where
  "byte_or_zero data i = (if i < length data then data ! i else 0)"

text \<open>
  The arithmetic of the scripts on pitches and channels rounds as double precision does:
  \<open>binary64 x\<close> is the double nearest to the real number \<open>x\<close>, the one with the
  even significand of two that are equally near, and an infinite value where that double
  would be 2 to the power 1024 or beyond. The exponent of \<open>x\<close> is at least -1022, the
  least one of a normal double, and the doubles of that exponent are the multiples of
  \<open>ulp\<close>.
\<close>

definition round_half_even :: "real \<Rightarrow> int" where
  "round_half_even q =
     (let f = \<lfloor>q\<rfloor>
      in if q - of_int f < 1 / 2 then f
         else if 1 / 2 < q - of_int f then f + 1
         else if even f then f else f + 1)"

definition binary64 :: "real \<Rightarrow> jsnumber" where
  "binary64 x =
     (if x = 0 then Finite 0
      else
        let e = max \<lfloor>log 2 \<bar>x\<bar>\<rfloor> (- 1022);
            ulp = 2 powi (e - 52);
            r = of_int (round_half_even (x / ulp)) * ulp
        in if 2 ^ 1024 \<le> r then PosInfinity
           else if r \<le> - (2 ^ 1024) then NegInfinity
           else Finite r)"

text \<open>
  The sum and the product of two numbers and \<^verbatim>\<open>Math.min\<close>, \<^verbatim>\<open>Math.max\<close> of two,
  with the values that are not finite.
\<close>

fun js_add :: "jsnumber \<Rightarrow> jsnumber \<Rightarrow> jsnumber" where
  "js_add (Finite a) (Finite b) = binary64 (a + b)"
| "js_add NaN b = NaN"
| "js_add a NaN = NaN"
| "js_add PosInfinity NegInfinity = NaN"
| "js_add NegInfinity PosInfinity = NaN"
| "js_add PosInfinity b = PosInfinity"
| "js_add a PosInfinity = PosInfinity"
| "js_add NegInfinity b = NegInfinity"
| "js_add a NegInfinity = NegInfinity"

fun js_mul :: "jsnumber \<Rightarrow> jsnumber \<Rightarrow> jsnumber" where
  "js_mul (Finite a) (Finite b) = binary64 (a * b)"
| "js_mul NaN b = NaN"
| "js_mul a NaN = NaN"
| "js_mul PosInfinity (Finite b) =
     (if b = 0 then NaN else if 0 < b then PosInfinity else NegInfinity)"
| "js_mul NegInfinity (Finite b) =
     (if b = 0 then NaN else if 0 < b then NegInfinity else PosInfinity)"
| "js_mul (Finite a) PosInfinity =
     (if a = 0 then NaN else if 0 < a then PosInfinity else NegInfinity)"
| "js_mul (Finite a) NegInfinity =
     (if a = 0 then NaN else if 0 < a then NegInfinity else PosInfinity)"
| "js_mul PosInfinity PosInfinity = PosInfinity"
| "js_mul PosInfinity NegInfinity = NegInfinity"
| "js_mul NegInfinity PosInfinity = NegInfinity"
| "js_mul NegInfinity NegInfinity = PosInfinity"

fun Math_min :: "jsnumber \<Rightarrow> jsnumber \<Rightarrow> jsnumber" where
  "Math_min (Finite a) (Finite b) = Finite (min a b)"
| "Math_min NaN b = NaN"
| "Math_min a NaN = NaN"
| "Math_min NegInfinity b = NegInfinity"
| "Math_min a NegInfinity = NegInfinity"
| "Math_min PosInfinity b = b"
| "Math_min a PosInfinity = a"

fun Math_max :: "jsnumber \<Rightarrow> jsnumber \<Rightarrow> jsnumber" where
  "Math_max (Finite a) (Finite b) = Finite (max a b)"
| "Math_max NaN b = NaN"
| "Math_max a NaN = NaN"
| "Math_max PosInfinity b = PosInfinity"
| "Math_max a PosInfinity = PosInfinity"
| "Math_max NegInfinity b = b"
| "Math_max a NegInfinity = a"

text \<open>
  The conversion to a 32-bit integer that \<^verbatim>\<open>&\<close> and \<^verbatim>\<open>|\<close> apply to an operand: a
  finite number is truncated and wraps around, every other number gives 0.
\<close>

definition ToInt32 :: "jsnumber \<Rightarrow> 32 word" where
  "ToInt32 n =
     (case n of
        Finite r \<Rightarrow> word_of_int (Math_trunc r)
      | NaN \<Rightarrow> 0
      | PosInfinity \<Rightarrow> 0
      | NegInfinity \<Rightarrow> 0)"

text \<open>A string of ASCII characters as the list of its UTF-16 code units.\<close>

definition ascii :: "string \<Rightarrow> nat list" where
  "ascii s = map of_char s"

text \<open>
  \<^verbatim>\<open>toLowerCase\<close> on code units. Besides the letters A to Z, the Kelvin sign and the
  dotted capital I are the code units whose lower case has an ASCII letter. Every other
  code unit outside ASCII stays outside ASCII: it is deleted by the last step of
  \<^verbatim>\<open>normalizePortName\<close> and occurs in no pitch letter and in no key of the pitch
  table, so it is left as it is.
\<close>

definition toLowerCase :: "nat list \<Rightarrow> nat list" where
  "toLowerCase s =
     concat (map (\<lambda>c. if 65 \<le> c \<and> c \<le> 90 then [c + 32]
                       else if c = 0x212A then [107]
                       else if c = 0x130 then [105, 0x307]
                       else [c]) s)"

section \<open>The drop-in viewer: state\<close>

record rect =
  rect_left :: real
  rect_right :: real
  rect_top :: real
  rect_bottom :: real

text \<open>
  The overlay element \<^verbatim>\<open>#analysis-overlay\<close>: its \<^verbatim>\<open>hidden\<close> flag, the two
  style coordinates (unset until first positioned) and the two label texts.
\<close>

record overlay =
  hidden :: bool
  style_left :: "real option"
  style_top :: "real option"
  stufe_text :: string
  function_text :: string

text \<open>
  The module state of the drop-in viewer, with the parts of the page it reads and writes.
  \<^item> \<open>svg\<close>: the elements of the rendered svg by id with their screen rectangles;
    \<open>None\<close> while \<^verbatim>\<open>elScore.querySelector("svg")\<close> finds nothing.
  \<^item> \<open>hv_highlight\<close>: the ids of the elements carrying the class \<^verbatim>\<open>hv-highlight\<close>.
  \<^item> \<open>analysis\<close>: \<^verbatim>\<open>analysis.steps\<close>; \<open>None\<close> when \<^verbatim>\<open>analysis\<close> or its
    \<^verbatim>\<open>steps\<close> is missing; an entry is \<open>None\<close> when it is falsy, otherwise the pair
    of \<^verbatim>\<open>step.stufe || ""\<close> and \<^verbatim>\<open>step.function || ""\<close>.
  \<^item> \<open>midiIn\<close>, \<open>midiOut\<close>: the names of the bound ports, as lists of UTF-16 code
    units; \<open>midiSent\<close>: the messages handed to \<^verbatim>\<open>midiOut.send\<close>, oldest first.
  \<^item> \<open>timeouts\<close>: the number of pending \<^verbatim>\<open>setTimeout\<close> callbacks of
    \<^verbatim>\<open>sendStepNotesAsMidi\<close>.
  \<^item> \<open>posted\<close>: the heights posted to the parent window as \<^verbatim>\<open>viewer-height\<close>.
\<close>

record viewer =
  IS_EMBEDDED :: bool
  svg :: "(string \<times> rect) list option"
  viewerRect :: rect
  offsetHeight :: real
  hv_highlight :: "string set"
  elOverlay :: overlay
  harmonicSteps :: "string list list"
  highlightedStep :: int
  analysis :: "(string \<times> string) option list option"
  globalAnalysisBaselineY :: "real option"
  isActiveViewer :: bool
  currentSlideIndex :: int
  midiIn :: "nat list option"
  midiOut :: "nat list option"
  stepPitches :: "real list list"
  midiSent :: "nat list list"
  timeouts :: nat
  posted :: "real list"

section \<open>The drop-in viewer: overlay and highlight\<close>

definition hideOverlay :: "viewer \<Rightarrow> viewer" where
  "hideOverlay s = s\<lparr>elOverlay := (elOverlay s)\<lparr>hidden := True\<rparr>\<rparr>"

definition analysis_entry :: "(string \<times> string) option list \<Rightarrow> int \<Rightarrow> (string \<times> string) option" where
  "analysis_entry entries i =
     (if 0 \<le> i \<and> i < int (length entries) then entries ! nat i else None)"

text \<open>
  \<^verbatim>\<open>updateAnalysisOverlay(stepIndex)\<close>. The page elements \<^verbatim>\<open>elOverlay\<close>,
  \<^verbatim>\<open>elStufe\<close>, \<^verbatim>\<open>elFunc\<close> and \<^verbatim>\<open>elViewer\<close> are taken to exist. With no svg
  the loop over the ids has nothing to look up: \<^verbatim>\<open>harmonicSteps\<close> is built from the
  svg and is empty without one.
\<close>

definition updateAnalysisOverlay :: "int \<Rightarrow> viewer \<Rightarrow> viewer" where
  "updateAnalysisOverlay stepIndex s =
     (case analysis s of
        None \<Rightarrow> hideOverlay s
      | Some entries \<Rightarrow>
          if stepIndex \<le> 0 then hideOverlay s
          else (case analysis_entry entries (stepIndex - 1) of
             None \<Rightarrow> hideOverlay s
           | Some (stufe, func) \<Rightarrow>
               let s1 = s\<lparr>elOverlay := (elOverlay s)\<lparr>stufe_text := stufe, function_text := func\<rparr>\<rparr>;
                   ids = at_or_empty (harmonicSteps s1) (stepIndex - 1);
                   rects = (case svg s1 of None \<Rightarrow> [] | Some els \<Rightarrow> List.map_filter (map_of els) ids)
               in if rects = [] then hideOverlay s1
                  else
                    let cx = foldl (\<lambda>a r. a + (rect_left r + rect_right r) / 2) 0 rects
                               / real (length rects)
                    in (case globalAnalysisBaselineY s1 of
                          None \<Rightarrow> hideOverlay s1
                        | Some baselineY \<Rightarrow>
                            if baselineY = 0 then hideOverlay s1
                            else s1\<lparr>elOverlay := (elOverlay s1)
                                   \<lparr>style_left := Some (cx - rect_left (viewerRect s1)),
                                    style_top := Some (baselineY - rect_top (viewerRect s1) + 6),
                                    hidden := False\<rparr>\<rparr>)))"

text \<open>
  \<^verbatim>\<open>computeGlobalAnalysisBaselineY()\<close>: ten pixels under the lowest bottom edge of the
  elements matching \<^verbatim>\<open>.notehead, g.note\<close>, whose rectangles are the argument.
\<close>

definition computeGlobalAnalysisBaselineY :: "rect list option \<Rightarrow> real option" where
  "computeGlobalAnalysisBaselineY noteheads =
     (case noteheads of
        None \<Rightarrow> None
      | Some [] \<Rightarrow> None
      | Some (r # rs) \<Rightarrow> Some (foldl max (rect_bottom r) (map rect_bottom rs) + 10))"

definition applySvgHighlight :: "int \<Rightarrow> viewer \<Rightarrow> viewer" where
  "applySvgHighlight stepIndex s =
     (case svg s of
        None \<Rightarrow> s
      | Some els \<Rightarrow>
          if stepIndex \<le> 0 then s\<lparr>hv_highlight := {}\<rparr>
          else s\<lparr>hv_highlight :=
                 set (filter (\<lambda>i. map_of els i \<noteq> None)
                        (at_or_empty (harmonicSteps s) (stepIndex - 1)))\<rparr>)"

definition notifyParentOfHeight :: "viewer \<Rightarrow> viewer" where
  "notifyParentOfHeight s =
     (if \<not> IS_EMBEDDED s then s else s\<lparr>posted := posted s @ [offsetHeight s]\<rparr>)"

section \<open>The drop-in viewer: MIDI output\<close>

definition sendCC :: "nat \<Rightarrow> int \<Rightarrow> nat \<Rightarrow> viewer \<Rightarrow> viewer" where
  "sendCC cc v channel s =
     (case midiOut s of
        None \<Rightarrow> s
      | Some port \<Rightarrow>
          s\<lparr>midiSent := midiSent s @
               [[0xB0 OR (channel AND 0x0F), cc AND 0x7F, nat (clampInt (num v) 0 127)]]\<rparr>)"

definition sendStepCountCc :: "viewer \<Rightarrow> viewer" where
  "sendStepCountCc s =
     (if \<not> isActiveViewer s then s else sendCC 23 (int (length (harmonicSteps s))) 0 s)"

definition sendSlideIndexCc :: "int \<Rightarrow> viewer \<Rightarrow> viewer" where
  "sendSlideIndexCc index s = (if \<not> isActiveViewer s then s else sendCC 24 index 0 s)"

definition sendAllNotesOff :: "nat \<Rightarrow> viewer \<Rightarrow> viewer" where
  "sendAllNotesOff channel s =
     (case midiOut s of None \<Rightarrow> s | Some port \<Rightarrow> sendCC 123 0 channel s)"

text \<open>
  \<^verbatim>\<open>sendStepNotesAsMidi(stepIndex)\<close>: one Note-On per pitch of the step on channel 0
  with velocity 100, and one more pending timeout that will send All Notes Off.
\<close>

definition sendStepNotesAsMidi :: "int \<Rightarrow> viewer \<Rightarrow> viewer" where
  "sendStepNotesAsMidi stepIndex s =
     (case midiOut s of
        None \<Rightarrow> s
      | Some port \<Rightarrow>
          s\<lparr>midiSent := midiSent s @
               map (\<lambda>p. [0x90 OR 0, nat (clampInt (Finite p) 0 127), 100])
                 (at_or_empty (stepPitches s) (stepIndex - 1)),
            timeouts := Suc (timeouts s)\<rparr>)"

text \<open>The callback of that timeout, when it fires.\<close>

definition noteTimeoutFires :: "viewer \<Rightarrow> viewer" where
  "noteTimeoutFires s =
     (if timeouts s = 0 then s else sendAllNotesOff 0 (s\<lparr>timeouts := timeouts s - 1\<rparr>))"

definition is_note_on :: "nat list \<Rightarrow> bool" where
  "is_note_on m = (byte_or_zero m 0 AND 0xF0 = 0x90)"

definition all_notes_off :: "nat list" where
  "all_notes_off = [0xB0, 123, 0]"

section \<open>The drop-in viewer: step selection and the incoming messages\<close>

definition highlightStep :: "int \<Rightarrow> viewer \<Rightarrow> viewer" where
  "highlightStep stepIndex s =
     (let s1 = s\<lparr>highlightedStep := clampInt (num stepIndex) 0 (int (length (harmonicSteps s)))\<rparr>;
          s2 = applySvgHighlight (highlightedStep s1) s1;
          s3 = updateAnalysisOverlay (highlightedStep s2) s2;
          s4 = (if isActiveViewer s3 \<and> highlightedStep s3 > 0
                then sendStepNotesAsMidi (highlightedStep s3) s3
                else sendAllNotesOff 0 s3)
      in notifyParentOfHeight s4)"

text \<open>\<^verbatim>\<open>handleMidiMessage(ev)\<close>, on the bytes \<^verbatim>\<open>ev.data || []\<close>.\<close>

definition handleMidiMessage :: "nat list \<Rightarrow> viewer \<Rightarrow> viewer" where
  "handleMidiMessage data s =
     (if \<not> isActiveViewer s \<and> IS_EMBEDDED s then s
      else
        let status = byte_or_zero data 0;
            d1 = byte_or_zero data 1;
            d2 = byte_or_zero data 2;
            msgType = status AND 0xF0
        in if msgType = 0xB0
           then (let cc = d1 AND 0x7F; v = d2 AND 0x7F
                 in if cc = 22
                    then highlightStep
                           (clampInt (num (int v)) 0 (int (length (harmonicSteps s)))) s
                    else s)
           else s)"

text \<open>The click handler of the debug button.\<close>

definition nextBtn_click :: "viewer \<Rightarrow> viewer" where
  "nextBtn_click s =
     highlightStep
       (if highlightedStep s + 1 > int (length (harmonicSteps s)) then 0
        else highlightedStep s + 1) s"

text \<open>
  The messages of the \<^verbatim>\<open>window\<close> listener. \<open>HarmonyActivate\<close> carries
  \<^verbatim>\<open>msg.slideIndex\<close>, \<open>None\<close> when it is undefined or null; \<open>OtherMessage\<close> is
  every other value, object or not.
\<close>

datatype message =
    HarmonyActivate "jsnumber option"
  | HarmonyDeactivate
  | HarmonyRequestStepCount
  | OtherMessage

definition onMessage :: "message \<Rightarrow> viewer \<Rightarrow> viewer" where
  "onMessage msg s =
     (case msg of
        HarmonyActivate slideIndex \<Rightarrow>
          let s1 = s\<lparr>isActiveViewer := True\<rparr>;
              s2 = s1\<lparr>currentSlideIndex :=
                      clampInt (case slideIndex of None \<Rightarrow> num 0 | Some n \<Rightarrow> n) 0 127\<rparr>;
              s3 = sendStepCountCc s2;
              s4 = sendSlideIndexCc (currentSlideIndex s3) s3;
              s5 = highlightStep (highlightedStep s4) s4
          in notifyParentOfHeight s5
      | HarmonyDeactivate \<Rightarrow> sendAllNotesOff 0 (s\<lparr>isActiveViewer := False\<rparr>)
      | HarmonyRequestStepCount \<Rightarrow> sendStepCountCc s
      | OtherMessage \<Rightarrow> s)"

section \<open>The chord-safe viewer\<close>

text \<open>
  A rendered element is referred to by its position in the tree of the svg: the list of
  child indices on the way from the root.
\<close>

type_synonym node_ref = "nat list"

text \<open>
  The state of the chord-safe viewer. \<open>steps_cs\<close> holds, per step, the notehead
  \<^verbatim>\<open>use\<close> elements; \<open>highlight_cs\<close> is the set of elements carrying
  \<^verbatim>\<open>hv-highlight\<close>. \<open>CC_SELECT_cs\<close> is \<^verbatim>\<open>Number(params.get("ccSelect") || 22)\<close>:
  \<open>None\<close> when that number equals no controller byte. Port names are lists of UTF-16
  code units.
\<close>

record viewer_cs =
  CC_SELECT_cs :: "nat option"
  CC_COUNT_cs :: nat
  MIDI_IN_NAME_cs :: "nat list"
  MIDI_OUT_NAME_cs :: "nat list"
  steps_cs :: "node_ref list list"
  currentStep_cs :: int
  midiIn_cs :: "nat list option"
  midiOut_cs :: "nat list option"
  stepsReady_cs :: bool
  midiReady_cs :: bool
  highlight_cs :: "node_ref set"
  midiSent_cs :: "nat list list"

definition clearHighlight_cs :: "viewer_cs \<Rightarrow> viewer_cs" where
  "clearHighlight_cs s = s\<lparr>highlight_cs := {}\<rparr>"

definition highlightStep_cs :: "int \<Rightarrow> viewer_cs \<Rightarrow> viewer_cs" where
  "highlightStep_cs index s =
     (let s1 = clearHighlight_cs s
      in if index \<le> 0 \<or> index > int (length (steps_cs s1))
         then s1\<lparr>currentStep_cs := 0\<rparr>
         else s1\<lparr>highlight_cs := set (steps_cs s1 ! nat (index - 1)),
                 currentStep_cs := index\<rparr>)"

text \<open>
  \<^verbatim>\<open>handleMIDIIn(e)\<close> on \<^verbatim>\<open>const [status, cc, value] = e.data\<close>: the three
  bytes of a MIDI message. A shorter message has a status byte other than Control Change,
  and its missing bytes are never read.
\<close>

definition handleMIDIIn_cs :: "nat \<times> nat \<times> nat \<Rightarrow> viewer_cs \<Rightarrow> viewer_cs" where
  "handleMIDIIn_cs data s =
     (case data of (status, cc, v) \<Rightarrow>
        if status AND 0xF0 \<noteq> 0xB0 then s
        else if Some cc = CC_SELECT_cs s then highlightStep_cs (int v) s
        else s)"

definition sendStepCount_cs :: "viewer_cs \<Rightarrow> viewer_cs" where
  "sendStepCount_cs s =
     (case midiOut_cs s of
        None \<Rightarrow> s
      | Some port \<Rightarrow>
          s\<lparr>midiSent_cs := midiSent_cs s @
               [[0xB0, CC_COUNT_cs s, min 127 (length (steps_cs s))]]\<rparr>)"

definition maybeSendStepCount_cs :: "viewer_cs \<Rightarrow> viewer_cs" where
  "maybeSendStepCount_cs s =
     (if \<not> stepsReady_cs s \<or> \<not> midiReady_cs s then s else sendStepCount_cs s)"

text \<open>\<^verbatim>\<open>String.prototype.includes\<close> on lists of code units.\<close>

fun starts_with :: "'a list \<Rightarrow> 'a list \<Rightarrow> bool" where
  "starts_with xs [] = True"
| "starts_with [] (y # ys) = False"
| "starts_with (x # xs) (y # ys) = (x = y \<and> starts_with xs ys)"

fun js_includes :: "'a list \<Rightarrow> 'a list \<Rightarrow> bool" where
  "js_includes [] needle = starts_with [] needle"
| "js_includes (x # xs) needle = (starts_with (x # xs) needle \<or> js_includes xs needle)"

text \<open>
  The callback of \<^verbatim>\<open>requestMIDIAccess\<close> in \<^verbatim>\<open>initMIDI\<close>: the two loops over
  the names of the available input and output ports, in the order of the port maps.
\<close>

definition bindInput_cs :: "nat list \<Rightarrow> viewer_cs \<Rightarrow> viewer_cs" where
  "bindInput_cs name s =
     (if js_includes name (MIDI_IN_NAME_cs s) then s\<lparr>midiIn_cs := Some name\<rparr> else s)"

definition bindOutput_cs :: "nat list \<Rightarrow> viewer_cs \<Rightarrow> viewer_cs" where
  "bindOutput_cs name s =
     (if js_includes name (MIDI_OUT_NAME_cs s)
      then maybeSendStepCount_cs (s\<lparr>midiOut_cs := Some name, midiReady_cs := True\<rparr>)
      else s)"

definition initMIDI_cs :: "nat list list \<Rightarrow> nat list list \<Rightarrow> viewer_cs \<Rightarrow> viewer_cs" where
  "initMIDI_cs inputs outputs s =
     maybeSendStepCount_cs (fold bindOutput_cs outputs (fold bindInput_cs inputs s))"

section \<open>The overlay viewer\<close>

text \<open>
  The state of the overlay viewer. \<open>layout_ov\<close> gives \<^verbatim>\<open>getBoundingClientRect()\<close>
  of every element and \<open>viewerRect_ov\<close> that of \<^verbatim>\<open>#viewer\<close>, in the present layout;
  the coordinates are finite. \<open>analysisData_ov\<close> is \<^verbatim>\<open>analysisData.steps\<close> as in
  the drop-in viewer. \<open>overlayClasses_ov\<close> is the class list of the overlay element.
  \<open>pageHeight_ov\<close> is the height \<^verbatim>\<open>notifyParentOfHeight\<close> computes from the svg,
  \<open>None\<close> without an svg; \<open>posted_ov\<close> the heights it has posted.
\<close>

record viewer_ov =
  steps_ov :: "node_ref list list"
  currentStep_ov :: int
  analysisData_ov :: "(string \<times> string) option list option"
  globalBaselineY_ov :: "real option"
  elOverlay_ov :: overlay
  overlayClasses_ov :: "string set"
  highlight_ov :: "node_ref set"
  layout_ov :: "node_ref \<Rightarrow> rect"
  viewerRect_ov :: rect
  pageHeight_ov :: "int option"
  posted_ov :: "int list"

definition hideOverlay_ov :: "viewer_ov \<Rightarrow> viewer_ov" where
  "hideOverlay_ov s =
     s\<lparr>elOverlay_ov := (elOverlay_ov s)\<lparr>hidden := True\<rparr>,
       overlayClasses_ov := insert ''inactive'' (overlayClasses_ov s - {''active''})\<rparr>"

text \<open>
  \<^verbatim>\<open>getStepScreenBBox(index)\<close>: \<open>(minX, maxX, maxY)\<close> over the elements of the step,
  \<open>None\<close> when the step is missing or empty.
\<close>

definition getStepScreenBBox_ov :: "int \<Rightarrow> viewer_ov \<Rightarrow> (real \<times> real \<times> real) option" where
  "getStepScreenBBox_ov index s =
     (if index - 1 < 0 \<or> int (length (steps_ov s)) \<le> index - 1 then None
      else (case map (layout_ov s) (steps_ov s ! nat (index - 1)) of
              [] \<Rightarrow> None
            | r # rs \<Rightarrow>
                Some (foldl min (rect_left r) (map rect_left rs),
                      foldl max (rect_right r) (map rect_right rs),
                      foldl max (rect_bottom r) (map rect_bottom rs))))"

definition positionOverlayAtStep_ov :: "int \<Rightarrow> viewer_ov \<Rightarrow> viewer_ov" where
  "positionOverlayAtStep_ov index s =
     (case getStepScreenBBox_ov index s of
        None \<Rightarrow> s
      | Some (minX, maxX, maxY) \<Rightarrow>
          let centerX = (minX + maxX) / 2;
              xInViewer = centerX - rect_left (viewerRect_ov s);
              yInViewer = (case globalBaselineY_ov s of
                             Some y \<Rightarrow> y
                           | None \<Rightarrow> maxY - rect_top (viewerRect_ov s) + 10)
          in s\<lparr>elOverlay_ov := (elOverlay_ov s)
                 \<lparr>style_left := Some xInViewer, style_top := Some yInViewer\<rparr>\<rparr>)"

definition updateOverlayForStep_ov :: "int \<Rightarrow> viewer_ov \<Rightarrow> viewer_ov" where
  "updateOverlayForStep_ov index s =
     (case (case analysisData_ov s of
              None \<Rightarrow> None
            | Some entries \<Rightarrow> analysis_entry entries (index - 1)) of
        None \<Rightarrow> hideOverlay_ov s
      | Some (stufe, func) \<Rightarrow>
          let s1 = s\<lparr>elOverlay_ov := (elOverlay_ov s)
                      \<lparr>stufe_text := stufe, function_text := func, hidden := False\<rparr>,
                    overlayClasses_ov := insert ''active'' (overlayClasses_ov s) - {''inactive''}\<rparr>;
              s2 = (if globalBaselineY_ov s1 = None
                    then (case getStepScreenBBox_ov index s1 of
                            None \<Rightarrow> s1
                          | Some (minX, maxX, maxY) \<Rightarrow>
                              s1\<lparr>globalBaselineY_ov :=
                                   Some ((maxY - rect_top (viewerRect_ov s1)) + 10)\<rparr>)
                    else s1)
          in positionOverlayAtStep_ov index s2)"

definition repositionOverlayForCurrentStep_ov :: "viewer_ov \<Rightarrow> viewer_ov" where
  "repositionOverlayForCurrentStep_ov s =
     (if currentStep_ov s > 0 then updateOverlayForStep_ov (currentStep_ov s) s else s)"

definition notifyParentOfHeight_ov :: "viewer_ov \<Rightarrow> viewer_ov" where
  "notifyParentOfHeight_ov s =
     (case pageHeight_ov s of None \<Rightarrow> s | Some h \<Rightarrow> s\<lparr>posted_ov := posted_ov s @ [h]\<rparr>)"

text \<open>
  The \<^verbatim>\<open>resize\<close> listener. The arguments are the layout the page has once the window
  has its new size and \<^verbatim>\<open>fitScoreToViewerWidth()\<close> has rescaled the svg.
\<close>

definition onResize_ov :: "(node_ref \<Rightarrow> rect) \<Rightarrow> rect \<Rightarrow> viewer_ov \<Rightarrow> viewer_ov" where
  "onResize_ov layout' viewerRect' s =
     (let s1 = s\<lparr>globalBaselineY_ov := None\<rparr>;
          s2 = s1\<lparr>layout_ov := layout', viewerRect_ov := viewerRect'\<rparr>;
          s3 = repositionOverlayForCurrentStep_ov s2
      in notifyParentOfHeight_ov s3)"

definition highlightStep_ov :: "int \<Rightarrow> viewer_ov \<Rightarrow> viewer_ov" where
  "highlightStep_ov index s =
     (let s1 = s\<lparr>highlight_ov := {}\<rparr>
      in if index \<le> 0 \<or> index > int (length (steps_ov s1))
         then hideOverlay_ov (s1\<lparr>currentStep_ov := 0\<rparr>)
         else updateOverlayForStep_ov index
                (s1\<lparr>highlight_ov := set (steps_ov s1 ! nat (index - 1)),
                    currentStep_ov := index\<rparr>))"

section \<open>The rendered score as a tree\<close>

text \<open>
  An element of the rendered svg: its tag name, its class list, its \<^verbatim>\<open>id\<close> attribute
  (\<open>None\<close> when it has none), and its children in document order. \<open>translateX\<close>
  stands for the \<^verbatim>\<open>transform\<close> attribute as \<^verbatim>\<open>buildHarmonicStepsFromSvg\<close> reads
  it: the number \<^verbatim>\<open>Number(m[1])\<close> of the first \<^verbatim>\<open>translate(x, y)\<close> in the attribute,
  \<open>None\<close> when there is no match or the number is not finite.
\<close>

datatype element =
  Element (tagName: string) (classList: "string list") (elemId: "string option")
    (translateX: "real option") (children: "element list")

text \<open>
  A node of the document: the element, where it stands (\<open>ref\<close>), and the tag name and
  class list of each of its ancestors, the parent first.
\<close>

record node =
  ref :: node_ref
  ancestors :: "(string \<times> string list) list"
  el :: element

text \<open>An element and its descendants in document order (depth first, parent first).\<close>

fun nodes :: "node_ref \<Rightarrow> (string \<times> string list) list \<Rightarrow> element \<Rightarrow> node list"
  and nodes_list ::
    "node_ref \<Rightarrow> (string \<times> string list) list \<Rightarrow> nat \<Rightarrow> element list \<Rightarrow> node list" where
  "nodes p anc (Element t c i x ks) =
     \<lparr>ref = p, ancestors = anc, el = Element t c i x ks\<rparr> # nodes_list p ((t, c) # anc) 0 ks"
| "nodes_list p anc k [] = []"
| "nodes_list p anc k (e # es) = nodes (p @ [k]) anc e @ nodes_list p anc (Suc k) es"

text \<open>
  The descendants of a node, which \<^verbatim>\<open>querySelectorAll\<close> called on it filters. The
  svg root stands at \<open>[]\<close>; no element above it in the page is a \<^verbatim>\<open>g\<close> or has the
  class \<^verbatim>\<open>notehead\<close>, so its own ancestors are left out.
\<close>

definition descendants :: "node \<Rightarrow> node list" where
  "descendants n =
     nodes_list (ref n) ((tagName (el n), classList (el n)) # ancestors n) 0 (children (el n))"

definition root_node :: "element \<Rightarrow> node" where
  "root_node e = \<lparr>ref = [], ancestors = [], el = e\<rparr>"

definition has_class :: "string \<Rightarrow> node \<Rightarrow> bool" where
  "has_class c n = (c \<in> set (classList (el n)))"

text \<open>The selectors \<^verbatim>\<open>g.chord\<close> and \<^verbatim>\<open>g.note\<close>.\<close>

definition is_g_chord :: "node \<Rightarrow> bool" where
  "is_g_chord n = (tagName (el n) = ''g'' \<and> has_class ''chord'' n)"

definition is_g_note :: "node \<Rightarrow> bool" where
  "is_g_note n = (tagName (el n) = ''g'' \<and> has_class ''note'' n)"

text \<open>\<^verbatim>\<open>note.closest("g.chord")\<close> finds something: the node itself or an ancestor matches.\<close>

definition closest_g_chord :: "node \<Rightarrow> bool" where
  "closest_g_chord n =
     (is_g_chord n \<or> list_ex (\<lambda>(t, c). t = ''g'' \<and> ''chord'' \<in> set c) (ancestors n))"

text \<open>
  The selector \<^verbatim>\<open>.notehead use\<close>: a \<^verbatim>\<open>use\<close> element with an ancestor of class
  \<^verbatim>\<open>notehead\<close>. The ancestor may be the element the query is called on, or lie above it.
\<close>

definition is_notehead_use :: "node \<Rightarrow> bool" where
  "is_notehead_use n =
     (tagName (el n) = ''use'' \<and> list_ex (\<lambda>(t, c). ''notehead'' \<in> set c) (ancestors n))"

definition noteheads :: "node \<Rightarrow> node_ref list" where
  "noteheads n = map ref (filter is_notehead_use (descendants n))"

text \<open>
  The comparator handed to \<^verbatim>\<open>sort\<close>. \<^verbatim>\<open>a === b\<close> is identity of nodes, that is
  equality of their places. The bit \<^verbatim>\<open>DOCUMENT_POSITION_FOLLOWING\<close> of
  \<^verbatim>\<open>a.compareDocumentPosition(b)\<close> is set when \<open>b\<close> comes after \<open>a\<close> in document
  order, a descendant of \<open>a\<close> included: the order of the places as lists, a prefix first.
\<close>

definition compareDocumentOrder :: "node \<Rightarrow> node \<Rightarrow> int" where
  "compareDocumentOrder a b =
     (if ref a = ref b then 0 else if ref a < ref b then - 1 else 1)"

text \<open>
  \<^verbatim>\<open>Array.prototype.sort\<close> with a comparator, as a stable insertion sort: the result
  the language fixes for every comparator that is a consistent total order.
\<close>

fun insert_by :: "('a \<Rightarrow> 'a \<Rightarrow> int) \<Rightarrow> 'a \<Rightarrow> 'a list \<Rightarrow> 'a list" where
  "insert_by cmp x [] = [x]"
| "insert_by cmp x (y # ys) = (if cmp x y \<le> 0 then x # y # ys else y # insert_by cmp x ys)"

definition sort_by :: "('a \<Rightarrow> 'a \<Rightarrow> int) \<Rightarrow> 'a list \<Rightarrow> 'a list" where
  "sort_by cmp xs = foldr (insert_by cmp) xs []"

text \<open>
  \<^verbatim>\<open>extractStepsChordSafe()\<close>, the same in the chord-safe, the overlay and the
  note-sending viewer: the new value of \<^verbatim>\<open>steps\<close>. The argument is the svg element
  under \<^verbatim>\<open>#score\<close>, \<open>None\<close> when there is none.
\<close>

definition extractStepsChordSafe :: "element option \<Rightarrow> node_ref list list" where
  "extractStepsChordSafe svgEl =
     (case svgEl of
        None \<Rightarrow> []
      | Some e \<Rightarrow>
          let chordGroups = filter is_g_chord (descendants (root_node e));
              standaloneNotes =
                filter (\<lambda>note. \<not> closest_g_chord note)
                  (filter is_g_note (descendants (root_node e)));
              allSteps = sort_by compareDocumentOrder (chordGroups @ standaloneNotes)
          in filter (\<lambda>noteheads. length noteheads > 0) (map noteheads allSteps))"

subsection \<open>The geometric grouping of the drop-in viewer\<close>

text \<open>The selector \<^verbatim>\<open>g.notehead use\<close>, and \<^verbatim>\<open>Math.round\<close>.\<close>

definition is_g_notehead_use :: "node \<Rightarrow> bool" where
  "is_g_notehead_use n =
     (tagName (el n) = ''use'' \<and>
      list_ex (\<lambda>(t, c). t = ''g'' \<and> ''notehead'' \<in> set c) (ancestors n))"

definition Math_round :: "real \<Rightarrow> int" where
  "Math_round r = \<lfloor>r + 1 / 2\<rfloor>"

text \<open>The loop over \<^verbatim>\<open>noteGroups\<close> that collects the entries \<^verbatim>\<open>{ id, x }\<close>.\<close>

definition note_entry :: "node \<Rightarrow> (string \<times> real) list" where
  "note_entry g =
     (case elemId (el g) of
        None \<Rightarrow> []
      | Some i \<Rightarrow>
          (case filter is_g_notehead_use (descendants g) of
             [] \<Rightarrow> []
           | u # us \<Rightarrow> (case translateX (el u) of None \<Rightarrow> [] | Some x \<Rightarrow> [(i, x)])))"

text \<open>The \<^verbatim>\<open>Map\<close> of buckets, its keys in the order of their first insertion.\<close>

fun bucket_push :: "int \<Rightarrow> string \<Rightarrow> (int \<times> string list) list \<Rightarrow> (int \<times> string list) list" where
  "bucket_push k i [] = [(k, [i])]"
| "bucket_push k i ((k', ids) # bs) =
     (if k = k' then (k', ids @ [i]) # bs else (k', ids) # bucket_push k i bs)"

definition buildHarmonicStepsFromSvg :: "element option \<Rightarrow> string list list" where
  "buildHarmonicStepsFromSvg svgEl =
     (case svgEl of
        None \<Rightarrow> []
      | Some e \<Rightarrow>
          let noteGroups =
                filter (\<lambda>n. is_g_note n \<and> elemId (el n) \<noteq> None) (descendants (root_node e));
              entries = sort_by (\<lambda>a b. if snd a < snd b then - 1 else if snd a = snd b then 0 else 1)
                          (concat (map note_entry noteGroups));
              buckets = foldl (\<lambda>bs (i, x). bucket_push (Math_round (x / 3)) i bs) [] entries
          in map snd
               (sort_by (\<lambda>a b. if fst a < fst b then - 1 else if fst a = fst b then 0 else 1)
                  buckets))"

section \<open>Pitches\<close>

text \<open>
  Modelled from the spec: what the rendering toolkit answers, whose code
  (\<^verbatim>\<open>verovio-toolkit.js\<close>) is not among the sources. It is
  "queried by the element's identifier for a pitch-class letter and octave number", and
  the scripts read the members \<^verbatim>\<open>pname\<close> and \<^verbatim>\<open>oct\<close> of the object it hands
  back. The pitch name is undefined, null, a string (the list of its UTF-16 code units)
  or a value of another type. The scripts use such a value through its truth value,
  \<^verbatim>\<open>typeof\<close> and \<^verbatim>\<open>String(pname)\<close> and through nothing else, so it is given by
  its truth value and the string it is converted to: the number 5 is
  \<open>Other True (ascii ''5'')\<close>.
\<close>

datatype jsval = Undefined | Null | Str "nat list" | Other bool "nat list"

fun truthy :: "jsval \<Rightarrow> bool" where
  "truthy Undefined = False"
| "truthy Null = False"
| "truthy (Str s) = (s \<noteq> [])"
| "truthy (Other t text) = t"

definition js_or :: "jsval \<Rightarrow> jsval \<Rightarrow> jsval" where
  "js_or a b = (if truthy a then a else b)"

text \<open>\<^verbatim>\<open>String(pname)\<close>.\<close>

fun String_of :: "jsval \<Rightarrow> nat list" where
  "String_of Undefined = ascii ''undefined''"
| "String_of Null = ascii ''null''"
| "String_of (Str s) = s"
| "String_of (Other t text) = text"

text \<open>
  Modelled from the spec: the octave the toolkit answers with is undefined, null, a string
  or a value of another type. The scripts use it through its truth value,
  \<^verbatim>\<open>typeof\<close>, \<^verbatim>\<open>Number(oct)\<close> and \<^verbatim>\<open>parseInt(oct, 10)\<close> and through nothing
  else, so a value is given by what it is to these.
  \<^item> \<open>OctEmpty\<close> is the empty string: falsy, 0 to \<^verbatim>\<open>Number\<close> and NaN to
    \<^verbatim>\<open>parseInt\<close>.
  \<^item> \<open>OctString n p\<close> is a string that is not empty, which \<^verbatim>\<open>Number\<close> reads as
    \<open>n\<close> and \<^verbatim>\<open>parseInt\<close> with radix 10 as \<open>p\<close>. The string \<^verbatim>\<open>4\<close> is
    \<open>OctString (num 4) (num 4)\<close>, \<^verbatim>\<open>4.5\<close> is \<open>OctString (Finite 4.5) (num 4)\<close>,
    \<^verbatim>\<open>1e1\<close> is \<open>OctString (num 10) (num 1)\<close>, \<^verbatim>\<open>0x10\<close> is
    \<open>OctString (num 16) (num 0)\<close>, \<^verbatim>\<open>4th\<close> is \<open>OctString NaN (num 4)\<close>, a word
    without digits is \<open>OctString NaN NaN\<close>, and a string of blanks is
    \<open>OctString (num 0) NaN\<close>.
  \<^item> \<open>OctOther t n\<close> is a value that is no string, with the truth value \<open>t\<close>, which
    \<^verbatim>\<open>Number\<close> converts to \<open>n\<close>: the number 4 is \<open>OctOther True (num 4)\<close>, the
    number 0 is \<open>OctOther False (num 0)\<close>.
\<close>

datatype octave =
    OctUndefined
  | OctNull
  | OctEmpty
  | OctString jsnumber jsnumber
  | OctOther bool jsnumber

fun truthy_octave :: "octave \<Rightarrow> bool" where
  "truthy_octave OctUndefined = False"
| "truthy_octave OctNull = False"
| "truthy_octave OctEmpty = False"
| "truthy_octave (OctString n p) = True"
| "truthy_octave (OctOther t n) = t"

definition js_or_octave :: "octave \<Rightarrow> octave \<Rightarrow> octave" where
  "js_or_octave a b = (if truthy_octave a then a else b)"

text \<open>\<^verbatim>\<open>Number(oct)\<close>.\<close>

fun Number_of :: "octave \<Rightarrow> jsnumber" where
  "Number_of OctUndefined = NaN"
| "Number_of OctNull = num 0"
| "Number_of OctEmpty = num 0"
| "Number_of (OctString n p) = n"
| "Number_of (OctOther t n) = n"

text \<open>
  The object \<^verbatim>\<open>getElementAttr\<close> returns: its \<^verbatim>\<open>pname\<close> and \<^verbatim>\<open>oct\<close>, and the
  same two of its \<^verbatim>\<open>pitch\<close> member when that is an object.
\<close>

record attrs =
  attr_pname :: jsval
  attr_oct :: octave
  attr_pitch :: "(jsval \<times> octave) option"

text \<open>The toolkit call: it raises, returns something that is no object, or returns an object.\<close>

datatype attr_result = Raises | NotAnObject | Attrs attrs

text \<open>\<^verbatim>\<open>pnameToSemitone(pname)\<close>: the switch on \<^verbatim>\<open>String(pname).toLowerCase()\<close>.\<close>

definition pnameToSemitone :: "jsval \<Rightarrow> int option" where
  "pnameToSemitone pname =
     (let l = toLowerCase (String_of pname)
      in if l = ascii ''c'' then Some 0
         else if l = ascii ''d'' then Some 2
         else if l = ascii ''e'' then Some 4
         else if l = ascii ''f'' then Some 5
         else if l = ascii ''g'' then Some 7
         else if l = ascii ''a'' then Some 9
         else if l = ascii ''b'' then Some 11
         else None)"

text \<open>
  \<^verbatim>\<open>midiFromPnameOct(pname, oct)\<close> of the drop-in viewer: null (\<open>None\<close>) or the
  number \<^verbatim>\<open>(o + 1) * 12 + semi\<close>.
\<close>

definition midiFromPnameOct :: "jsval \<Rightarrow> octave \<Rightarrow> jsnumber option" where
  "midiFromPnameOct pname oct =
     (case pnameToSemitone pname of
        None \<Rightarrow> None
      | Some semi \<Rightarrow>
          (case Number_of oct of
             Finite oc \<Rightarrow> Some (js_add (js_mul (js_add (Finite oc) (num 1)) (num 12)) (num semi))
           | NaN \<Rightarrow> None
           | PosInfinity \<Rightarrow> None
           | NegInfinity \<Rightarrow> None))"

text \<open>
  The body of the loop over the note ids of a step in \<^verbatim>\<open>computeStepPitches\<close>: what
  is pushed for one id. \<^verbatim>\<open>Number.isFinite(midi)\<close> is false for null.
\<close>

definition note_pitch :: "(string \<Rightarrow> attr_result) \<Rightarrow> string \<Rightarrow> real list" where
  "note_pitch getElementAttr noteId =
     (case getElementAttr noteId of
        Raises \<Rightarrow> []
      | NotAnObject \<Rightarrow> []
      | Attrs a \<Rightarrow>
          let pname = js_or (js_or (attr_pname a)
                               (case attr_pitch a of None \<Rightarrow> Undefined | Some (pp, po) \<Rightarrow> pp))
                        (attr_pname a);
              oct = js_or_octave
                      (js_or_octave (attr_oct a)
                         (case attr_pitch a of None \<Rightarrow> OctUndefined | Some (pp, po) \<Rightarrow> po))
                      (attr_oct a)
          in (case midiFromPnameOct pname oct of
                Some (Finite midi) \<Rightarrow> [midi]
              | Some NaN \<Rightarrow> []
              | Some PosInfinity \<Rightarrow> []
              | Some NegInfinity \<Rightarrow> []
              | None \<Rightarrow> []))"

text \<open>\<^verbatim>\<open>Array.from(new Set(pitches))\<close>: the first occurrence of each value is kept.\<close>

fun uniq :: "'a list \<Rightarrow> 'a list" where
  "uniq [] = []"
| "uniq (x # xs) = x # filter (\<lambda>y. y \<noteq> x) (uniq xs)"

text \<open>
  \<^verbatim>\<open>computeStepPitches()\<close> of the drop-in viewer: the new value of
  \<^verbatim>\<open>stepPitches\<close>, for a toolkit that is present.
\<close>

definition computeStepPitches ::
    "(string \<Rightarrow> attr_result) \<Rightarrow> string list list \<Rightarrow> real list list" where
  "computeStepPitches getElementAttr steps =
     map (\<lambda>ids.
            sort_by (\<lambda>a b. if a < b then - 1 else if a = b then 0 else 1)
              (uniq (concat (map (note_pitch getElementAttr) ids))))
       steps"

subsection \<open>The note-sending viewer\<close>

text \<open>A call that returns a value, or raises what nothing catches.\<close>

datatype 'a outcome = Thrown | Returned 'a

text \<open>
  What \<^verbatim>\<open>pcMap[key]\<close> finds in the object literal
  \<^verbatim>\<open>{ c:0, d:2, e:4, f:5, g:7, a:9, b:11 }\<close>: one of its seven own numbers; a member
  it inherits from \<^verbatim>\<open>Object.prototype\<close>, which is an object or a function; or
  undefined. The key is in lower case, and the inherited names without a capital letter
  are \<^verbatim>\<open>constructor\<close> and \<^verbatim>\<open>__proto__\<close>.
\<close>

datatype pc_member = OwnNumber int | InheritedMember | NoMember

definition pcMap :: "nat list \<Rightarrow> pc_member" where
  "pcMap key =
     (case map_of [(ascii ''c'', 0), (ascii ''d'', 2), (ascii ''e'', 4), (ascii ''f'', 5),
                   (ascii ''g'', 7), (ascii ''a'', 9), (ascii ''b'', 11)] key of
        Some pc \<Rightarrow> OwnNumber pc
      | None \<Rightarrow>
          if key = ascii ''constructor'' \<or> key = ascii ''__proto__'' then InheritedMember
          else NoMember)"

text \<open>
  A value of \<^verbatim>\<open>stepPitches\<close> in the note-sending viewer: a number, or the string
  that \<^verbatim>\<open>+\<close> makes of a number and an inherited member. That string begins with the
  number and goes on with the text of the member, so it reads as NaN.
\<close>

datatype midi_nv = MidiNumber jsnumber | MidiText

text \<open>
  \<^verbatim>\<open>getMidiFromNoteGroupId(noteId)\<close>: it raises when the toolkit call does, and
  returns null (\<open>None\<close>) or \<^verbatim>\<open>(parseInt(oct, 10) + 1) * 12 + pc\<close> otherwise.
  The inner distinction is \<^verbatim>\<open>typeof oct !== "string"\<close>, with what \<^verbatim>\<open>parseInt\<close>
  reads a string as.
\<close>

definition getMidiFromNoteGroupId_nv ::
    "(string \<Rightarrow> attr_result) \<Rightarrow> string \<Rightarrow> midi_nv option outcome" where
  "getMidiFromNoteGroupId_nv getElementAttr noteId =
     (case getElementAttr noteId of
        Raises \<Rightarrow> Thrown
      | NotAnObject \<Rightarrow> Returned None
      | Attrs a \<Rightarrow>
          (case attr_pname a of
             Undefined \<Rightarrow> Returned None
           | Null \<Rightarrow> Returned None
           | Other t text \<Rightarrow> Returned None
           | Str pname \<Rightarrow>
               (case (case attr_oct a of
                        OctUndefined \<Rightarrow> None
                      | OctNull \<Rightarrow> None
                      | OctOther t n \<Rightarrow> None
                      | OctEmpty \<Rightarrow> Some NaN
                      | OctString n p \<Rightarrow> Some p) of
                  None \<Rightarrow> Returned None
                | Some parsed \<Rightarrow>
                    (case pcMap (toLowerCase pname) of
                       NoMember \<Rightarrow> Returned None
                     | InheritedMember \<Rightarrow> Returned (Some MidiText)
                     | OwnNumber pc \<Rightarrow>
                         Returned (Some (MidiNumber
                           (js_add (js_mul (js_add parsed (num 1)) (num 12)) (num pc))))))))"

text \<open>
  \<^verbatim>\<open>computeStepPitches()\<close> of the note-sending viewer: the new value of
  \<^verbatim>\<open>stepPitches\<close>; a toolkit call that raises ends it before the assignment.
\<close>

definition computeStepPitches_nv ::
    "(string \<Rightarrow> attr_result) \<Rightarrow> string list list \<Rightarrow> midi_nv list list outcome" where
  "computeStepPitches_nv getElementAttr stepNoteIds =
     (if list_ex (list_ex (\<lambda>i. getMidiFromNoteGroupId_nv getElementAttr i = Thrown)) stepNoteIds
      then Thrown
      else Returned
             (map (\<lambda>ids.
                     concat (map (\<lambda>i. case getMidiFromNoteGroupId_nv getElementAttr i of
                                         Returned (Some m) \<Rightarrow> [m]
                                       | Returned None \<Rightarrow> []
                                       | Thrown \<Rightarrow> []) ids))
                stepNoteIds))"

section \<open>The note-sending viewer: step selection\<close>

text \<open>
  The state of the note-sending viewer; it has no activation state.
  \<^item> \<open>CC_SELECT_nv\<close> is \<^verbatim>\<open>Number(params.get("ccSelect") || 22)\<close>, \<open>None\<close> when that
    number equals no controller byte; \<open>NOTE_CH_nv\<close> and \<open>NOTE_VEL_nv\<close> are
    \<^verbatim>\<open>Number(params.get("noteCh") || 1)\<close> and \<^verbatim>\<open>Number(params.get("vel") || 90)\<close>.
  \<^item> \<open>steps_nv\<close> holds, per step, the notehead \<^verbatim>\<open>use\<close> elements and
    \<open>stepPitches_nv\<close> what \<^verbatim>\<open>computeStepPitches\<close> has stored; \<open>highlight_nv\<close> is
    the set of elements carrying \<^verbatim>\<open>hv-highlight\<close>.
  \<^item> \<open>overlay_nv\<close> is the element \<^verbatim>\<open>#analysis-overlay\<close>, \<open>None\<close> on a page
    without it; \<open>overlayStufe_nv\<close> and \<open>overlayFunc_nv\<close> tell whether its two text
    elements were found. \<open>analysisData_nv\<close>, \<open>layout_nv\<close> and \<open>viewerRect_nv\<close> are
    as in the overlay viewer.
  \<^item> \<open>midiOut_nv\<close> is the name of the bound output port, \<open>midiSent_nv\<close> the messages
    handed to \<^verbatim>\<open>midiOut.send\<close>, oldest first, and \<open>timeouts_nv\<close> the pending
    \<^verbatim>\<open>setTimeout\<close> callbacks of \<^verbatim>\<open>highlightStep\<close>, each given by the Note-Off
    messages it will hand over.
\<close>

record viewer_nv =
  CC_SELECT_nv :: "nat option"
  NOTE_CH_nv :: jsnumber
  NOTE_VEL_nv :: jsnumber
  steps_nv :: "node_ref list list"
  stepPitches_nv :: "midi_nv list list"
  currentStep_nv :: int
  analysisData_nv :: "(string \<times> string) option list option"
  globalBaselineY_nv :: "real option"
  overlay_nv :: "overlay option"
  overlayStufe_nv :: bool
  overlayFunc_nv :: bool
  highlight_nv :: "node_ref set"
  layout_nv :: "node_ref \<Rightarrow> rect"
  viewerRect_nv :: rect
  midiOut_nv :: "nat list option"
  midiSent_nv :: "nat list list"
  timeouts_nv :: "nat list list list"

text \<open>
  A call of a function that changes the state: the state it leaves, and whether it
  returned or raised a \<^verbatim>\<open>TypeError\<close> that nothing catches.
\<close>

datatype 'a completion = Normal 'a | Abrupt 'a

fun state_of :: "'a completion \<Rightarrow> 'a" where
  "state_of (Normal s) = s"
| "state_of (Abrupt s) = s"

fun returned :: "'a completion \<Rightarrow> bool" where
  "returned (Normal s) = True"
| "returned (Abrupt s) = False"

definition hideOverlay_nv :: "viewer_nv \<Rightarrow> viewer_nv" where
  "hideOverlay_nv s =
     (case overlay_nv s of
        None \<Rightarrow> s
      | Some ov \<Rightarrow> s\<lparr>overlay_nv := Some (ov\<lparr>hidden := True\<rparr>)\<rparr>)"

definition getStepScreenBBox_nv :: "int \<Rightarrow> viewer_nv \<Rightarrow> (real \<times> real \<times> real) option" where
  "getStepScreenBBox_nv index s =
     (if index - 1 < 0 \<or> int (length (steps_nv s)) \<le> index - 1 then None
      else (case map (layout_nv s) (steps_nv s ! nat (index - 1)) of
              [] \<Rightarrow> None
            | r # rs \<Rightarrow>
                Some (foldl min (rect_left r) (map rect_left rs),
                      foldl max (rect_right r) (map rect_right rs),
                      foldl max (rect_bottom r) (map rect_bottom rs))))"

definition positionOverlayAtStep_nv :: "int \<Rightarrow> viewer_nv \<Rightarrow> viewer_nv" where
  "positionOverlayAtStep_nv index s =
     (case getStepScreenBBox_nv index s of
        None \<Rightarrow> s
      | Some (minX, maxX, maxY) \<Rightarrow>
          (case overlay_nv s of
             None \<Rightarrow> s
           | Some ov \<Rightarrow>
               let centerX = (minX + maxX) / 2
               in s\<lparr>overlay_nv := Some (ov
                      \<lparr>style_left := Some (centerX - rect_left (viewerRect_nv s)),
                       style_top := Some (case globalBaselineY_nv s of
                                            Some y \<Rightarrow> y
                                          | None \<Rightarrow> maxY - rect_top (viewerRect_nv s) + 12)\<rparr>)\<rparr>))"

text \<open>
  \<^verbatim>\<open>updateOverlayForStep(index)\<close>. Writing the text of an element that was not found
  raises.
\<close>

definition updateOverlayForStep_nv :: "int \<Rightarrow> viewer_nv \<Rightarrow> viewer_nv completion" where
  "updateOverlayForStep_nv index s =
     (case overlay_nv s of
        None \<Rightarrow> Normal (hideOverlay_nv s)
      | Some ov \<Rightarrow>
          (case (case analysisData_nv s of
                   None \<Rightarrow> None
                 | Some entries \<Rightarrow> analysis_entry entries (index - 1)) of
             None \<Rightarrow> Normal (hideOverlay_nv s)
           | Some (stufe, func) \<Rightarrow>
               if \<not> overlayStufe_nv s then Abrupt s
               else
                 let s1 = s\<lparr>overlay_nv := Some (ov\<lparr>stufe_text := stufe\<rparr>)\<rparr>
                 in if \<not> overlayFunc_nv s1 then Abrupt s1
                    else
                      let s2 = s1\<lparr>overlay_nv := Some (ov
                                   \<lparr>stufe_text := stufe, function_text := func,
                                    hidden := False\<rparr>)\<rparr>;
                          s3 = (if globalBaselineY_nv s2 = None
                                then (case getStepScreenBBox_nv index s2 of
                                        None \<Rightarrow> s2
                                      | Some (minX, maxX, maxY) \<Rightarrow>
                                          s2\<lparr>globalBaselineY_nv :=
                                               Some ((maxY - rect_top (viewerRect_nv s2)) + 12)\<rparr>)
                                else s2)
                      in Normal (positionOverlayAtStep_nv index s3)))"

text \<open>
  The Note-On and the Note-Off message \<^verbatim>\<open>highlightStep\<close> makes for one pitch:
  \<^verbatim>\<open>[0x90 | ch0, p & 0x7f, NOTE_VEL & 0x7f]\<close> and \<^verbatim>\<open>[0x80 | ch0, p & 0x7f, 0]\<close>
  with \<^verbatim>\<open>ch0 = Math.max(0, Math.min(15, NOTE_CH - 1))\<close>. A pitch that is a string
  reads as NaN.
\<close>

definition ch0_nv :: "viewer_nv \<Rightarrow> jsnumber" where
  "ch0_nv s = Math_max (num 0) (Math_min (num 15) (js_add (NOTE_CH_nv s) (num (- 1))))"

fun pitch_bits :: "midi_nv \<Rightarrow> 32 word" where
  "pitch_bits (MidiNumber n) = ToInt32 n"
| "pitch_bits MidiText = 0"

definition noteOn_nv :: "viewer_nv \<Rightarrow> midi_nv \<Rightarrow> nat list" where
  "noteOn_nv s p =
     [unat (0x90 OR ToInt32 (ch0_nv s)), unat (pitch_bits p AND 0x7F),
      unat (ToInt32 (NOTE_VEL_nv s) AND 0x7F)]"

definition noteOff_nv :: "viewer_nv \<Rightarrow> midi_nv \<Rightarrow> nat list" where
  "noteOff_nv s p = [unat (0x80 OR ToInt32 (ch0_nv s)), unat (pitch_bits p AND 0x7F), 0]"

text \<open>
  \<^verbatim>\<open>highlightStep(index)\<close> of the note-sending viewer. There is no test of an
  activation state: the notes of the step are sent whenever an output port is bound.
\<close>

definition highlightStep_nv :: "int \<Rightarrow> viewer_nv \<Rightarrow> viewer_nv completion" where
  "highlightStep_nv index s =
     (let s1 = s\<lparr>highlight_nv := {}\<rparr>
      in if index \<le> 0 \<or> index > int (length (steps_nv s1))
         then Normal (hideOverlay_nv (s1\<lparr>currentStep_nv := 0\<rparr>))
         else
           (case updateOverlayForStep_nv index
                   (s1\<lparr>highlight_nv := set (steps_nv s1 ! nat (index - 1)),
                       currentStep_nv := index\<rparr>) of
              Abrupt s2 \<Rightarrow> Abrupt s2
            | Normal s2 \<Rightarrow>
                (case midiOut_nv s2 of
                   None \<Rightarrow> Normal s2
                 | Some port \<Rightarrow>
                     Normal (s2\<lparr>midiSent_nv := midiSent_nv s2 @
                                  map (noteOn_nv s2) (at_or_empty (stepPitches_nv s2) (index - 1)),
                                timeouts_nv := timeouts_nv s2 @
                                  [map (noteOff_nv s2)
                                     (at_or_empty (stepPitches_nv s2) (index - 1))]\<rparr>))))"

text \<open>
  \<^verbatim>\<open>handleMIDIIn(e)\<close> of the note-sending viewer on the bytes of a MIDI message,
  \<^verbatim>\<open>const [status, cc, value] = e.data\<close>. A byte the message does not have is
  undefined: as the status it is no Control Change, as the controller it is not
  \<^verbatim>\<open>CC_SELECT\<close>, and as the value it makes \<^verbatim>\<open>highlightStep\<close> clear the highlight,
  pass both comparisons and raise on the step it does not find.
\<close>

definition handleMIDIIn_nv :: "nat list \<Rightarrow> viewer_nv \<Rightarrow> viewer_nv completion" where
  "handleMIDIIn_nv data s =
     (case data of
        [] \<Rightarrow> Normal s
      | status # rest \<Rightarrow>
          if status AND 0xF0 \<noteq> 0xB0 then Normal s
          else (case rest of
                  [] \<Rightarrow> Normal s
                | cc # rest' \<Rightarrow>
                    if Some cc \<noteq> CC_SELECT_nv s then Normal s
                    else (case rest' of
                            [] \<Rightarrow> Abrupt (s\<lparr>highlight_nv := {}\<rparr>)
                          | v # others \<Rightarrow> highlightStep_nv (int v) s)))"

section \<open>The drop-in viewer: choosing the MIDI ports\<close>

definition replace_units :: "nat list \<Rightarrow> nat list \<Rightarrow> nat list \<Rightarrow> nat list" where
  "replace_units from to s = concat (map (\<lambda>c. if c \<in> set from then to else [c]) s)"

definition is_space_unit :: "nat \<Rightarrow> bool" where
  "is_space_unit c =
     (c \<in> set [9, 10, 11, 12, 13, 32, 0xA0, 0x1680, 0x2028, 0x2029, 0x202F, 0x205F, 0x3000, 0xFEFF]
      \<or> (0x2000 \<le> c \<and> c \<le> 0x200A))"

definition is_port_name_unit :: "nat \<Rightarrow> bool" where
  "is_port_name_unit c =
     ((97 \<le> c \<and> c \<le> 122) \<or> (48 \<le> c \<and> c \<le> 57) \<or> c \<in> set [60, 62, 45, 95, 46])"

definition normalizePortName :: "nat list \<Rightarrow> nat list" where
  "normalizePortName s =
     filter is_port_name_unit
       (filter (\<lambda>c. \<not> is_space_unit c)
          (replace_units [0x2013, 0x2014] (ascii ''-'')
             (replace_units [0x2192, 0x2794, 0x21D2] (ascii ''->'')
                (toLowerCase s))))"

text \<open>
  \<^verbatim>\<open>pickMidiPort(mapLike, hint)\<close>: the ports are given by their names, in the order
  of the port map.
\<close>

definition pickMidiPort :: "nat list list \<Rightarrow> nat list \<Rightarrow> nat list option" where
  "pickMidiPort ports hint =
     (if length ports = 0 then None
      else
        let hintNorm = normalizePortName hint
        in (case find (\<lambda>x. js_includes (normalizePortName x) hintNorm) ports of
              Some p \<Rightarrow> Some p
            | None \<Rightarrow>
                let wantsBrowser = js_includes hintNorm (ascii ''browser'');
                    wantsMax = js_includes hintNorm (ascii ''max'')
                in (case (if wantsBrowser \<or> wantsMax
                          then find (\<lambda>x. let n = normalizePortName x
                                          in (\<not> wantsBrowser \<or> js_includes n (ascii ''browser''))
                                             \<and> (\<not> wantsMax \<or> js_includes n (ascii ''max'')))
                                 ports
                          else None) of
                      Some p \<Rightarrow> Some p
                    | None \<Rightarrow> Some (hd ports))))"

text \<open>
  \<^verbatim>\<open>initMidi()\<close>: the argument is the pair of port lists of the MIDI access,
  \<open>None\<close> when the browser has no \<^verbatim>\<open>requestMIDIAccess\<close>.
\<close>

definition initMidi ::
    "(nat list list \<times> nat list list) option \<Rightarrow> nat list \<Rightarrow> nat list \<Rightarrow> viewer \<Rightarrow> viewer" where
  "initMidi midiAccess IN_PORT_HINT OUT_PORT_HINT s =
     (case midiAccess of
        None \<Rightarrow> s
      | Some (inputs, outputs) \<Rightarrow>
          s\<lparr>midiIn := pickMidiPort inputs IN_PORT_HINT,
            midiOut := pickMidiPort outputs OUT_PORT_HINT\<rparr>)"

text \<open>The state in which the script of the drop-in viewer starts, before anything is loaded.\<close>

definition initial_viewer :: "bool \<Rightarrow> viewer" where
  "initial_viewer embedded =
     \<lparr>IS_EMBEDDED = embedded,
      svg = None,
      viewerRect = \<lparr>rect_left = 0, rect_right = 0, rect_top = 0, rect_bottom = 0\<rparr>,
      offsetHeight = 0,
      hv_highlight = {},
      elOverlay = \<lparr>hidden = True, style_left = None, style_top = None,
                    stufe_text = [], function_text = []\<rparr>,
      harmonicSteps = [],
      highlightedStep = 0,
      analysis = None,
      globalAnalysisBaselineY = None,
      isActiveViewer = (\<not> embedded),
      currentSlideIndex = 0,
      midiIn = None,
      midiOut = None,
      stepPitches = [],
      midiSent = [],
      timeouts = 0,
      posted = []\<rparr>"

section \<open>The activating plugin\<close>

text \<open>
  An iframe with the attribute \<^verbatim>\<open>data-harmony\<close>: the viewer in its content window
  (\<open>None\<close> when it has no content window) and the \<^verbatim>\<open>section\<close> elements that contain
  it, the nearest first. A deck: its iframes in document order, and the sections that carry
  the attribute \<^verbatim>\<open>data-harmony-slide\<close>.
\<close>

record iframe =
  contentWindow :: "viewer option"
  sections :: "nat list"

record deck =
  iframes :: "iframe list"
  harmony_slide :: "nat set"

text \<open>
  What one navigation event gives \<^verbatim>\<open>activateCurrentIframe\<close>: the indices of the
  event where they are numbers, the indices of the deck (\<^verbatim>\<open>|| 0\<close> applied), and the
  current slide.
\<close>

record navigation =
  event_indexh :: "int option"
  event_indexv :: "int option"
  deck_h :: int
  deck_v :: int
  currentSlide :: "nat option"

definition computeSlideIndex :: "navigation \<Rightarrow> int" where
  "computeSlideIndex ev =
     (case event_indexh ev of
        Some h \<Rightarrow> h * 100 + (case event_indexv ev of Some v \<Rightarrow> v | None \<Rightarrow> 0)
      | None \<Rightarrow> deck_h ev * 100 + deck_v ev)"

text \<open>\<^verbatim>\<open>current && current.contains(iframe)\<close>.\<close>

definition in_current_slide :: "navigation \<Rightarrow> iframe \<Rightarrow> bool" where
  "in_current_slide ev f =
     (case currentSlide ev of None \<Rightarrow> False | Some c \<Rightarrow> c \<in> set (sections f))"

text \<open>
  The body of the loop of \<^verbatim>\<open>activateCurrentIframe\<close> for one iframe: the message is
  posted and the viewer's listener has handled it.
\<close>

definition notify_iframe :: "navigation \<Rightarrow> iframe \<Rightarrow> iframe" where
  "notify_iframe ev f =
     (case contentWindow f of
        None \<Rightarrow> f
      | Some w \<Rightarrow>
          f\<lparr>contentWindow :=
              Some (onMessage (if in_current_slide ev f
                               then HarmonyActivate (Some (num (computeSlideIndex ev)))
                               else HarmonyDeactivate) w)\<rparr>)"

definition mark_section :: "navigation \<Rightarrow> iframe \<Rightarrow> nat set \<Rightarrow> nat set" where
  "mark_section ev f marked =
     (case contentWindow f of
        None \<Rightarrow> marked
      | Some w \<Rightarrow>
          (case sections f of
             [] \<Rightarrow> marked
           | sec # outer \<Rightarrow> if in_current_slide ev f then insert sec marked else marked - {sec}))"

definition activateCurrentIframe :: "navigation \<Rightarrow> deck \<Rightarrow> deck" where
  "activateCurrentIframe ev d =
     \<lparr>iframes = map (notify_iframe ev) (iframes d),
      harmony_slide = fold (mark_section ev) (iframes d) (harmony_slide d)\<rparr>"

definition is_active :: "iframe \<Rightarrow> bool" where
  "is_active f = (case contentWindow f of None \<Rightarrow> False | Some w \<Rightarrow> isActiveViewer w)"

definition active_viewers :: "deck \<Rightarrow> iframe list" where
  "active_viewers d = filter is_active (iframes d)"

section \<open>Example states\<close>

text \<open>
  An embedded drop-in viewer that has loaded a score of three single-note steps with its
  analysis, has an output port bound, and has not been activated.
\<close>

definition demo_viewer :: viewer where
  "demo_viewer =
     (initial_viewer True)
       \<lparr>svg := Some [(''n1'', \<lparr>rect_left = 10, rect_right = 20, rect_top = 50, rect_bottom = 60\<rparr>),
                    (''n2'', \<lparr>rect_left = 40, rect_right = 50, rect_top = 70, rect_bottom = 80\<rparr>),
                    (''n3'', \<lparr>rect_left = 70, rect_right = 80, rect_top = 50, rect_bottom = 60\<rparr>)],
        harmonicSteps := [[''n1''], [''n2''], [''n3'']],
        analysis := Some [Some (''I'', ''T''), Some (''V'', ''D''), Some (''I'', ''T'')],
        globalAnalysisBaselineY := Some 90,
        midiOut := Some (ascii ''out''),
        stepPitches := [[60], [62], [64]]\<rparr>"

text \<open>A chord-safe viewer with three steps and no port bound.\<close>

definition demo_viewer_cs :: viewer_cs where
  "demo_viewer_cs =
     \<lparr>CC_SELECT_cs = Some 22, CC_COUNT_cs = 23,
      MIDI_IN_NAME_cs = ascii ''in'', MIDI_OUT_NAME_cs = ascii ''out'',
      steps_cs = [[[0, 0, 0]], [[1, 0, 0]], [[2, 0, 0]]],
      currentStep_cs = 0, midiIn_cs = None, midiOut_cs = None,
      stepsReady_cs = True, midiReady_cs = False, highlight_cs = {}, midiSent_cs = []\<rparr>"

text \<open>The overlay as \<^verbatim>\<open>updateAnalysisOverlay\<close> leaves it.\<close>

definition overlay_after :: "int \<Rightarrow> viewer \<Rightarrow> overlay" where
  "overlay_after n s = elOverlay (updateAnalysisOverlay n s)"

text \<open>A port whose name matches neither hint of the drop-in viewer.\<close>

definition demo_port :: "nat list" where
  "demo_port = ascii ''IAC Bus 1''"

text \<open>
  Two decks of two embedded viewers each: one with a viewer on slide 1 and one on slide 2,
  one with both viewers on slide 1. \<open>slide_shown c\<close> is the navigation to slide \<open>c\<close>.
\<close>

definition demo_deck :: deck where
  "demo_deck =
     \<lparr>iframes = [\<lparr>contentWindow = Some demo_viewer, sections = [1]\<rparr>,
                 \<lparr>contentWindow = Some demo_viewer, sections = [2]\<rparr>],
      harmony_slide = {}\<rparr>"

definition crowded_deck :: deck where
  "crowded_deck =
     \<lparr>iframes = [\<lparr>contentWindow = Some demo_viewer, sections = [1]\<rparr>,
                 \<lparr>contentWindow = Some demo_viewer, sections = [1]\<rparr>],
      harmony_slide = {}\<rparr>"

definition slide_shown :: "nat \<Rightarrow> navigation" where
  "slide_shown c =
     \<lparr>event_indexh = Some (int c), event_indexv = Some 0, deck_h = int c, deck_v = 0,
      currentSlide = Some c\<rparr>"

text \<open>
  The overlay viewer has an analysis entry for a step; an overlay viewer with three
  single-note steps, their analysis and no baseline yet, in the layout \<open>demo_layout\<close>.
\<close>

definition has_entry_ov :: "int \<Rightarrow> viewer_ov \<Rightarrow> bool" where
  "has_entry_ov index s =
     (case analysisData_ov s of
        None \<Rightarrow> False
      | Some entries \<Rightarrow> analysis_entry entries (index - 1) \<noteq> None)"

definition demo_layout :: "node_ref \<Rightarrow> rect" where
  "demo_layout r =
     (if r = [0, 0, 0] then \<lparr>rect_left = 10, rect_right = 20, rect_top = 50, rect_bottom = 60\<rparr>
      else if r = [1, 0, 0] then \<lparr>rect_left = 40, rect_right = 50, rect_top = 70, rect_bottom = 80\<rparr>
      else \<lparr>rect_left = 70, rect_right = 80, rect_top = 30, rect_bottom = 40\<rparr>)"

definition demo_viewer_ov :: viewer_ov where
  "demo_viewer_ov =
     \<lparr>steps_ov = [[[0, 0, 0]], [[1, 0, 0]], [[2, 0, 0]]],
      currentStep_ov = 0,
      analysisData_ov = Some [Some (''I'', ''T''), Some (''V'', ''D''), Some (''I'', ''T'')],
      globalBaselineY_ov = None,
      elOverlay_ov = \<lparr>hidden = True, style_left = None, style_top = None,
                       stufe_text = [], function_text = []\<rparr>,
      overlayClasses_ov = {},
      highlight_ov = {},
      layout_ov = demo_layout,
      viewerRect_ov = \<lparr>rect_left = 0, rect_right = 100, rect_top = 5, rect_bottom = 105\<rparr>,
      pageHeight_ov = Some 120,
      posted_ov = []\<rparr>"

text \<open>
  What the plugin never changes of an iframe: whether it has a content window and the
  sections that contain it; and whether a navigation reaches such an iframe.
\<close>

definition placed :: "iframe \<Rightarrow> bool \<times> nat list" where
  "placed f = (contentWindow f \<noteq> None, sections f)"

definition reached :: "navigation \<Rightarrow> bool \<times> nat list \<Rightarrow> bool" where
  "reached ev k = (fst k \<and> (case currentSlide ev of None \<Rightarrow> False | Some c \<Rightarrow> c \<in> set (snd k)))"

text \<open>
  A toolkit that knows five notes: a G4, two C4, a note with the pitch name h, a c whose
  octave is the string \<^verbatim>\<open>4.5\<close>, and nothing for every other id. The octave of the
  first four is the string \<^verbatim>\<open>4\<close>.
\<close>

definition note_attrs :: "string \<Rightarrow> octave \<Rightarrow> attr_result" where
  "note_attrs pname oct = Attrs \<lparr>attr_pname = Str (ascii pname), attr_oct = oct, attr_pitch = None\<rparr>"

definition demo_toolkit :: "string \<Rightarrow> attr_result" where
  "demo_toolkit noteId =
     (if noteId = ''n1'' then note_attrs ''g'' (OctString (num 4) (num 4))
      else if noteId = ''n2'' then note_attrs ''c'' (OctString (num 4) (num 4))
      else if noteId = ''n3'' then note_attrs ''c'' (OctString (num 4) (num 4))
      else if noteId = ''n4'' then note_attrs ''h'' (OctString (num 4) (num 4))
      else if noteId = ''n6'' then note_attrs ''c'' (OctString (Finite 4.5) (num 4))
      else NotAnObject)"

text \<open>
  A note-sending viewer with three steps and their pitches, an output port bound, the
  default channel 1 and velocity 90, and no analysis loaded.
\<close>

definition demo_viewer_nv :: viewer_nv where
  "demo_viewer_nv =
     \<lparr>CC_SELECT_nv = Some 22, NOTE_CH_nv = num 1, NOTE_VEL_nv = num 90,
      steps_nv = [[[0, 0, 0]], [[1, 0, 0], [1, 1, 0]], [[2, 0, 0]]],
      stepPitches_nv = [[MidiNumber (num 60)], [MidiNumber (num 62), MidiNumber (num 65)],
                        [MidiNumber (num 64)]],
      currentStep_nv = 0,
      analysisData_nv = None,
      globalBaselineY_nv = None,
      overlay_nv = Some \<lparr>hidden = True, style_left = None, style_top = None,
                          stufe_text = [], function_text = []\<rparr>,
      overlayStufe_nv = True,
      overlayFunc_nv = True,
      highlight_nv = {},
      layout_nv = (\<lambda>r. \<lparr>rect_left = 0, rect_right = 10, rect_top = 0, rect_bottom = 10\<rparr>),
      viewerRect_nv = \<lparr>rect_left = 0, rect_right = 100, rect_top = 0, rect_bottom = 100\<rparr>,
      midiOut_nv = Some (ascii ''out''),
      midiSent_nv = [],
      timeouts_nv = []\<rparr>"

text \<open>The comparator \<^verbatim>\<open>(a, b) => a - b\<close>, by its sign.\<close>

abbreviation numeric_order :: "real \<Rightarrow> real \<Rightarrow> int" where
  "numeric_order \<equiv> (\<lambda>a b. if a < b then - 1 else if a = b then 0 else 1)"

text \<open>
  A rendered score: a chord of the two notes n1 and n2 at x = 300, then a single note n3
  at x = 100, then a note n4 without a notehead.
\<close>

definition notehead_of :: "real \<Rightarrow> element" where
  "notehead_of x =
     Element ''g'' [''notehead''] None None [Element ''use'' [] None (Some x) []]"

definition demo_svg :: element where
  "demo_svg =
     Element ''svg'' [] None None
       [Element ''g'' [''chord''] (Some ''c1'') None
          [Element ''g'' [''note''] (Some ''n1'') None [notehead_of 300],
           Element ''g'' [''note''] (Some ''n2'') None [notehead_of 300]],
        Element ''g'' [''note''] (Some ''n3'') None [notehead_of 100],
        Element ''g'' [''note''] (Some ''n4'') None []]"

section \<open>The drop-in viewer: each function as one update of the state\<close>

lemma clampInt_num: "clampInt (num n) lo hi = max lo (min hi n)"
  by (simp add: clampInt_def Math_trunc_def)

lemma updateAnalysisOverlay_eq:
  "updateAnalysisOverlay n s = s\<lparr>elOverlay := overlay_after n s\<rparr>"
  by (simp add: overlay_after_def updateAnalysisOverlay_def hideOverlay_def Let_def
      split: option.splits prod.splits)

lemma applySvgHighlight_eq:
  "applySvgHighlight n s =
     s\<lparr>hv_highlight :=
         (case svg s of
            None \<Rightarrow> hv_highlight s
          | Some els \<Rightarrow>
              if n \<le> 0 then {}
              else set (filter (\<lambda>i. map_of els i \<noteq> None) (at_or_empty (harmonicSteps s) (n - 1))))\<rparr>"
  by (simp add: applySvgHighlight_def split: option.splits)

lemma sendCC_eq:
  "sendCC cc v ch s =
     s\<lparr>midiSent := midiSent s @
         (case midiOut s of
            None \<Rightarrow> []
          | Some p \<Rightarrow> [[0xB0 OR (ch AND 0x0F), cc AND 0x7F, nat (max 0 (min 127 v))]])\<rparr>"
  by (simp add: sendCC_def clampInt_num split: option.splits)

lemma sendAllNotesOff_eq:
  "sendAllNotesOff ch s =
     s\<lparr>midiSent := midiSent s @
         (case midiOut s of None \<Rightarrow> [] | Some p \<Rightarrow> [[0xB0 OR (ch AND 0x0F), 123, 0]])\<rparr>"
  by (simp add: sendAllNotesOff_def sendCC_eq split: option.splits)

lemma sendStepNotesAsMidi_eq:
  "sendStepNotesAsMidi k s =
     s\<lparr>midiSent := midiSent s @
         (case midiOut s of
            None \<Rightarrow> []
          | Some p \<Rightarrow> map (\<lambda>p. [0x90 OR 0, nat (clampInt (Finite p) 0 127), 100])
                        (at_or_empty (stepPitches s) (k - 1))),
       timeouts := (case midiOut s of None \<Rightarrow> timeouts s | Some p \<Rightarrow> Suc (timeouts s))\<rparr>"
  by (simp add: sendStepNotesAsMidi_def split: option.splits)

lemma notifyParentOfHeight_eq:
  "notifyParentOfHeight s =
     s\<lparr>posted := posted s @ (if IS_EMBEDDED s then [offsetHeight s] else [])\<rparr>"
  by (simp add: notifyParentOfHeight_def)

text \<open>The overlay depends on none of the fields the other functions write.\<close>

lemma overlay_after_cong:
  "overlay_after n (s\<lparr>isActiveViewer := b\<rparr>) = overlay_after n s"
  "overlay_after n (s\<lparr>midiOut := p\<rparr>) = overlay_after n s"
  "overlay_after n (s\<lparr>midiSent := m\<rparr>) = overlay_after n s"
  "overlay_after n (s\<lparr>highlightedStep := h\<rparr>) = overlay_after n s"
  "overlay_after n (s\<lparr>hv_highlight := hv\<rparr>) = overlay_after n s"
  "overlay_after n (s\<lparr>currentSlideIndex := i\<rparr>) = overlay_after n s"
  by (simp_all add: overlay_after_def updateAnalysisOverlay_def hideOverlay_def Let_def
      split: option.splits prod.splits)

lemmas viewer_eqs = updateAnalysisOverlay_eq applySvgHighlight_eq sendCC_eq sendAllNotesOff_eq
  sendStepNotesAsMidi_eq notifyParentOfHeight_eq overlay_after_cong

lemma highlightStep_index:
  "highlightedStep (highlightStep n s) = max 0 (min (int (length (harmonicSteps s))) n)"
  by (simp add: highlightStep_def Let_def viewer_eqs clampInt_num)

lemma demo_viewer_fields:
  "IS_EMBEDDED demo_viewer"
  "\<not> isActiveViewer demo_viewer"
  "harmonicSteps demo_viewer = [[''n1''], [''n2''], [''n3'']]"
  "stepPitches demo_viewer = [[60], [62], [64]]"
  "midiOut demo_viewer = Some (ascii ''out'')"
  "midiSent demo_viewer = []"
  "highlightedStep demo_viewer = 0"
  "hv_highlight demo_viewer = {}"
  "hidden (elOverlay demo_viewer)"
  "svg demo_viewer =
     Some [(''n1'', \<lparr>rect_left = 10, rect_right = 20, rect_top = 50, rect_bottom = 60\<rparr>),
           (''n2'', \<lparr>rect_left = 40, rect_right = 50, rect_top = 70, rect_bottom = 80\<rparr>),
           (''n3'', \<lparr>rect_left = 70, rect_right = 80, rect_top = 50, rect_bottom = 60\<rparr>)]"
  by (simp_all add: demo_viewer_def initial_viewer_def)

lemma demo_viewer_overlay:
  "overlay_after 2 demo_viewer =
     \<lparr>hidden = False, style_left = Some 45, style_top = Some 96,
      stufe_text = ''V'', function_text = ''D''\<rparr>"
  by (simp add: overlay_after_def updateAnalysisOverlay_def demo_viewer_def initial_viewer_def
      analysis_entry_def at_or_empty_def List.map_filter_def hideOverlay_def)

section \<open>Rounding to double precision\<close>

lemma round_half_even_of_int: "round_half_even (of_int m) = m"
  by (simp add: round_half_even_def)

text \<open>
  A number \<open>k * 2\<^sup>j\<close> with \<open>k\<close> of less than 54 bits and \<open>j\<close> in the range of the
  exponents of a double is a double: rounding leaves it as it is.
\<close>

lemma binary64_exact:
  fixes k j :: int
  assumes k: "\<bar>k\<bar> < 2 ^ 53" and j: "- 1074 \<le> j" "j \<le> 971"
  shows "binary64 (of_int k * 2 powi j) = Finite (of_int k * 2 powi j)"
proof (cases "k = 0")
  case True
  then show ?thesis by (simp add: binary64_def)
next
  case False
  define x :: real where "x = of_int k * 2 powi j"
  have x0: "x \<noteq> 0" using False by (simp add: x_def)
  have ax: "\<bar>x\<bar> = of_int \<bar>k\<bar> * 2 powi j"
    by (simp add: x_def abs_mult)
  have "of_int \<bar>k\<bar> < (2::real) ^ 53"
    using k by (metis of_int_less_iff of_int_numeral of_int_power)
  then have lt: "\<bar>x\<bar> < 2 powi (53 + j)"
    unfolding ax by (simp add: power_int_add)
  have "log 2 \<bar>x\<bar> < of_int (53 + j)"
    using lt x0 by (simp add: log_less_iff powr_real_of_int' del: of_int_add)
  then have e_le: "\<lfloor>log 2 \<bar>x\<bar>\<rfloor> \<le> 52 + j"
    by (simp add: floor_le_iff)
  define e where "e = max \<lfloor>log 2 \<bar>x\<bar>\<rfloor> (- 1022)"
  have e52: "e - 52 \<le> j" using e_le j by (simp add: e_def)
  define d where "d = nat (j - (e - 52))"
  have q: "x / 2 powi (e - 52) = of_int (k * 2 ^ d)"
  proof -
    have "j = (e - 52) + int d" using e52 by (simp add: d_def)
    then have "(2::real) powi j = 2 powi (e - 52) * 2 ^ d"
      by (simp add: power_int_add)
    then show ?thesis by (simp add: x_def)
  qed
  have r: "of_int (round_half_even (x / 2 powi (e - 52))) * 2 powi (e - 52) = x"
    unfolding q round_half_even_of_int using q by (simp add: field_simps)
  have "\<bar>x\<bar> < 2 powi 1024"
    using lt j power_int_strict_increasing [of "53 + j" 1024 "2::real"]
    by (cases "53 + j = 1024") auto
  then have b: "\<bar>x\<bar> < 2 ^ 1024" by simp
  show ?thesis
    using x0 r b unfolding x_def [symmetric] binary64_def e_def [symmetric] Let_def
    by (auto simp: abs_less_iff)
qed

lemma binary64_of_int: "\<bar>k\<bar> < 2 ^ 53 \<Longrightarrow> binary64 (of_int k) = Finite (of_int k)"
  using binary64_exact [of k 0] by simp

lemma binary64_0: "binary64 0 = Finite 0"
  by (simp add: binary64_def)

lemma binary64_1: "binary64 1 = Finite 1"
  using binary64_of_int [of 1] by simp

lemma binary64_numeral:
  "(numeral w :: int) < 2 ^ 53 \<Longrightarrow> binary64 (numeral w) = Finite (numeral w)"
  using binary64_of_int [of "numeral w"] by simp

lemma binary64_half: "binary64 (11 / 2) = Finite (11 / 2)"
  using binary64_exact [of 11 "- 1"] by simp

lemmas binary64_eval = binary64_0 binary64_1 binary64_numeral binary64_half

text \<open>The pitch of a whole octave is computed without rounding.\<close>

lemma midi_value:
  assumes "\<bar>n\<bar> < 2 ^ 48" "0 \<le> pc" "pc \<le> 11"
  shows "js_add (js_mul (js_add (num n) (num 1)) (num 12)) (num pc) = num ((n + 1) * 12 + pc)"
proof -
  have a: "js_add (num n) (num 1) = num (n + 1)"
    using binary64_of_int [of "n + 1"] assms by simp
  have b: "js_mul (num (n + 1)) (num 12) = num ((n + 1) * 12)"
    using binary64_of_int [of "(n + 1) * 12"] assms by simp
  have c: "js_add (num ((n + 1) * 12)) (num pc) = num ((n + 1) * 12 + pc)"
    using binary64_of_int [of "(n + 1) * 12 + pc"] assms by simp
  show ?thesis
    by (simp only: a b c)
qed

section \<open>Note output and activation\<close>

lemma updateOverlayForStep_nv_frame:
  "midiSent_nv (state_of (updateOverlayForStep_nv i s)) = midiSent_nv s"
  "midiOut_nv (state_of (updateOverlayForStep_nv i s)) = midiOut_nv s"
  "stepPitches_nv (state_of (updateOverlayForStep_nv i s)) = stepPitches_nv s"
  "timeouts_nv (state_of (updateOverlayForStep_nv i s)) = timeouts_nv s"
  "NOTE_CH_nv (state_of (updateOverlayForStep_nv i s)) = NOTE_CH_nv s"
  "NOTE_VEL_nv (state_of (updateOverlayForStep_nv i s)) = NOTE_VEL_nv s"
  by (simp_all add: updateOverlayForStep_nv_def hideOverlay_nv_def positionOverlayAtStep_nv_def
      Let_def split: option.splits prod.splits)

lemma updateOverlayForStep_nv_returned:
  "returned (updateOverlayForStep_nv i s) =
     (overlay_nv s = None
      \<or> (case analysisData_nv s of None \<Rightarrow> None | Some entries \<Rightarrow> analysis_entry entries (i - 1))
          = None
      \<or> (overlayStufe_nv s \<and> overlayFunc_nv s))"
  by (auto simp: updateOverlayForStep_nv_def Let_def split: option.splits prod.splits)

lemma noteOn_nv_cong:
  "NOTE_CH_nv s = NOTE_CH_nv t \<Longrightarrow> NOTE_VEL_nv s = NOTE_VEL_nv t \<Longrightarrow> noteOn_nv s = noteOn_nv t"
  by (simp add: noteOn_nv_def ch0_nv_def fun_eq_iff)

lemma highlightStep_nv_out_of_range:
  "k \<le> 0 \<or> int (length (steps_nv v)) < k \<Longrightarrow>
   returned (highlightStep_nv k v) \<and> midiSent_nv (state_of (highlightStep_nv k v)) = midiSent_nv v"
  by (auto simp: highlightStep_nv_def hideOverlay_nv_def Let_def split: option.splits)

lemma highlightStep_nv_in_range:
  assumes "0 < k" "k \<le> int (length (steps_nv v))"
  defines "w \<equiv> v\<lparr>highlight_nv := set (steps_nv v ! nat (k - 1)), currentStep_nv := k\<rparr>"
  shows "returned (highlightStep_nv k v) = returned (updateOverlayForStep_nv k w)"
    and "midiSent_nv (state_of (highlightStep_nv k v)) =
           midiSent_nv v @
             (if returned (updateOverlayForStep_nv k w) \<and> midiOut_nv v \<noteq> None
              then map (noteOn_nv v) (at_or_empty (stepPitches_nv v) (k - 1)) else [])"
proof -
  define c where "c = updateOverlayForStep_nv k w"
  have fr: "midiSent_nv (state_of c) = midiSent_nv v" "midiOut_nv (state_of c) = midiOut_nv v"
    "stepPitches_nv (state_of c) = stepPitches_nv v"
    by (simp_all add: c_def updateOverlayForStep_nv_frame w_def)
  have on: "noteOn_nv (state_of c) = noteOn_nv v"
    by (rule noteOn_nv_cong) (simp_all add: c_def updateOverlayForStep_nv_frame w_def)
  have h: "highlightStep_nv k v =
      (case c of
         Abrupt s2 \<Rightarrow> Abrupt s2
       | Normal s2 \<Rightarrow>
           (case midiOut_nv s2 of
              None \<Rightarrow> Normal s2
            | Some port \<Rightarrow>
                Normal (s2\<lparr>midiSent_nv := midiSent_nv s2 @
                              map (noteOn_nv s2) (at_or_empty (stepPitches_nv s2) (k - 1)),
                            timeouts_nv := timeouts_nv s2 @
                              [map (noteOff_nv s2) (at_or_empty (stepPitches_nv s2) (k - 1))]\<rparr>)))"
    using assms(1,2) by (simp add: highlightStep_nv_def c_def w_def Let_def)
  show "returned (highlightStep_nv k v) = returned (updateOverlayForStep_nv k w)"
    unfolding h c_def [symmetric] by (cases c) (simp_all split: option.splits)
  show "midiSent_nv (state_of (highlightStep_nv k v)) =
           midiSent_nv v @
             (if returned (updateOverlayForStep_nv k w) \<and> midiOut_nv v \<noteq> None
              then map (noteOn_nv v) (at_or_empty (stepPitches_nv v) (k - 1)) else [])"
    unfolding h c_def [symmetric] using fr on by (cases c) (auto split: option.splits)
qed

lemma highlightStep_nv_sent:
  "midiSent_nv (state_of (highlightStep_nv k v)) =
     midiSent_nv v @
       (if returned (highlightStep_nv k v) \<and> 0 < k \<and> k \<le> int (length (steps_nv v))
           \<and> midiOut_nv v \<noteq> None
        then map (noteOn_nv v) (at_or_empty (stepPitches_nv v) (k - 1)) else [])"
proof (cases "0 < k \<and> k \<le> int (length (steps_nv v))")
  case True
  then show ?thesis
    using highlightStep_nv_in_range [of k v] by simp
next
  case False
  then show ?thesis
    using highlightStep_nv_out_of_range [of k v] by auto
qed

lemma highlightStep_nv_returned:
  "overlay_nv v = None \<or> analysisData_nv v = None \<or> (overlayStufe_nv v \<and> overlayFunc_nv v) \<Longrightarrow>
   returned (highlightStep_nv k v)"
proof (cases "0 < k \<and> k \<le> int (length (steps_nv v))")
  case True
  assume "overlay_nv v = None \<or> analysisData_nv v = None \<or> (overlayStufe_nv v \<and> overlayFunc_nv v)"
  then show ?thesis
    using True highlightStep_nv_in_range(1) [of k v]
    by (auto simp: updateOverlayForStep_nv_returned)
next
  case False
  then show ?thesis
    using highlightStep_nv_out_of_range [of k v] by auto
qed

lemma ch0_nv_range: "\<exists>c::int. 0 \<le> c \<and> c \<le> 15 \<and> ToInt32 (ch0_nv s) = word_of_int c"
proof -
  have "\<exists>c::int. 0 \<le> c \<and> c \<le> 15
          \<and> ToInt32 (Math_max (num 0) (Math_min (num 15) x)) = word_of_int c" for x
  proof (cases x)
    case (Finite r)
    have "0 \<le> Math_trunc (max 0 (min 15 r))" "Math_trunc (max 0 (min 15 r)) \<le> 15"
      by (simp_all add: Math_trunc_def le_floor_iff floor_le_iff)
    then show ?thesis
      using Finite by (auto simp: ToInt32_def)
  next
    case NaN
    then show ?thesis by (auto simp: ToInt32_def intro: exI [of _ 0])
  next
    case PosInfinity
    then show ?thesis by (auto simp: ToInt32_def Math_trunc_def intro: exI [of _ 15])
  next
    case NegInfinity
    then show ?thesis by (auto simp: ToInt32_def Math_trunc_def intro: exI [of _ 0])
  qed
  then show ?thesis
    by (simp add: ch0_nv_def)
qed

lemma note_on_status:
  assumes "0 \<le> c" "c \<le> 15"
  shows "unat ((0x90 :: 32 word) OR word_of_int c) AND 0xF0 = 0x90"
proof -
  have "c = 0 \<or> c = 1 \<or> c = 2 \<or> c = 3 \<or> c = 4 \<or> c = 5 \<or> c = 6 \<or> c = 7 \<or> c = 8
      \<or> c = 9 \<or> c = 10 \<or> c = 11 \<or> c = 12 \<or> c = 13 \<or> c = 14 \<or> c = 15"
    using assms by presburger
  then show ?thesis
    by (elim disjE) simp_all
qed

lemma noteOn_nv_is_note_on: "is_note_on (noteOn_nv s p)"
  using ch0_nv_range [of s] by (auto simp: is_note_on_def byte_or_zero_def noteOn_nv_def note_on_status)

lemma noteOn_nv_not_all_notes_off: "noteOn_nv s p \<noteq> all_notes_off"
  using noteOn_nv_is_note_on [of s p] by (auto simp: is_note_on_def byte_or_zero_def all_notes_off_def)

lemma demo_noteOn_nv:
  "noteOn_nv demo_viewer_nv (MidiNumber (Finite 62)) = [0x90, 62, 90]"
  "noteOn_nv demo_viewer_nv (MidiNumber (Finite 65)) = [0x90, 65, 90]"
  by (simp_all add: noteOn_nv_def ch0_nv_def demo_viewer_nv_def ToInt32_def Math_trunc_def
      binary64_eval)

lemma demo_viewer_nv_fields:
  "midiSent_nv demo_viewer_nv = []"
  "midiOut_nv demo_viewer_nv = Some (ascii ''out'')"
  "overlay_nv demo_viewer_nv \<noteq> None"
  "analysisData_nv demo_viewer_nv = None"
  "CC_SELECT_nv demo_viewer_nv = Some 22"
  "length (steps_nv demo_viewer_nv) = 3"
  "at_or_empty (stepPitches_nv demo_viewer_nv) 1 = [MidiNumber (Finite 62), MidiNumber (Finite 65)]"
  by (simp_all add: demo_viewer_nv_def at_or_empty_def)

text \<open>
  Claim C2 (note-output gating), as the code has it.
  \<^item> In the drop-in viewer, while \<^verbatim>\<open>isActiveViewer\<close> is false, selecting any step
    with \<^verbatim>\<open>highlightStep\<close> sends no Note-On: what it hands to the output port is
    exactly one All Notes Off (controller 123, value 0, channel 0) when a port is bound,
    and nothing when none is bound. A raw controller message handled by
    \<^verbatim>\<open>handleMidiMessage\<close> in that state sends no Note-On either. The step index is
    arbitrary, so this holds for every \<open>k > 0\<close>.
  \<^item> The note-sending viewer has no activation state. Its \<^verbatim>\<open>highlightStep\<close>, when it
    returns for a step \<open>k\<close> of the score with an output port bound, hands over one Note-On
    for every pitch stored for the step; it hands over nothing for an index that is no
    step, without a port, or when it raises; and it never hands over an All Notes Off.
    It returns whenever the page has no overlay element, no analysis is loaded, or the
    two text elements of the overlay exist. A controller message for the step-select
    controller that has a value byte is a call of \<^verbatim>\<open>highlightStep\<close> with that
    value.
\<close>

theorem note_output_gating:
  "(\<not> isActiveViewer s \<longrightarrow>
      midiSent (highlightStep k s) =
        midiSent s @ (case midiOut s of None \<Rightarrow> [] | Some p \<Rightarrow> [all_notes_off])
      \<and> \<not> list_ex is_note_on (drop (length (midiSent s)) (midiSent (highlightStep k s)))
      \<and> \<not> list_ex is_note_on (drop (length (midiSent s)) (midiSent (handleMidiMessage d s))))
   \<and> (returned (highlightStep_nv k v) \<and> 0 < k \<and> k \<le> int (length (steps_nv v))
        \<and> midiOut_nv v \<noteq> None \<longrightarrow>
      midiSent_nv (state_of (highlightStep_nv k v)) =
        midiSent_nv v @ map (noteOn_nv v) (at_or_empty (stepPitches_nv v) (k - 1))
      \<and> list_all is_note_on (map (noteOn_nv v) (at_or_empty (stepPitches_nv v) (k - 1))))
   \<and> (\<not> returned (highlightStep_nv k v) \<or> k \<le> 0 \<or> int (length (steps_nv v)) < k
        \<or> midiOut_nv v = None \<longrightarrow>
      midiSent_nv (state_of (highlightStep_nv k v)) = midiSent_nv v)
   \<and> all_notes_off \<notin> set (drop (length (midiSent_nv v))
                               (midiSent_nv (state_of (highlightStep_nv k v))))
   \<and> (overlay_nv v = None \<or> analysisData_nv v = None
        \<or> (overlayStufe_nv v \<and> overlayFunc_nv v) \<longrightarrow>
      returned (highlightStep_nv k v))
   \<and> (status AND 0xF0 = 0xB0 \<and> Some cc = CC_SELECT_nv v \<longrightarrow>
      handleMIDIIn_nv (status # cc # val # others) v = highlightStep_nv (int val) v)"
  apply (intro conjI impI)
  subgoal by (simp add: highlightStep_def Let_def viewer_eqs all_notes_off_def
      split: option.splits)
  subgoal by (simp add: highlightStep_def Let_def viewer_eqs all_notes_off_def
      is_note_on_def byte_or_zero_def split: option.splits)
  subgoal by (simp add: handleMidiMessage_def highlightStep_def Let_def viewer_eqs
      all_notes_off_def is_note_on_def byte_or_zero_def split: option.splits)
  subgoal by (simp add: highlightStep_nv_sent)
  subgoal by (simp add: list_all_iff noteOn_nv_is_note_on)
  subgoal by (auto simp: highlightStep_nv_sent)
  subgoal by (auto simp: highlightStep_nv_sent noteOn_nv_not_all_notes_off [THEN not_sym])
  subgoal by (rule highlightStep_nv_returned)
  subgoal by (simp add: handleMIDIIn_nv_def)
  done

text \<open>
  The inactive example viewer has a port bound: selecting its step 2 sends the one All
  Notes Off and no Note-On, and the controller message for step 2 sends no Note-On. The
  note-sending example viewer sends the two Note-On of its step 2 when that step is
  selected, and nothing when step 0 is.
\<close>

theorem note_output_gating_witness:
  "\<not> isActiveViewer demo_viewer
   \<and> midiSent (highlightStep 2 demo_viewer) = [all_notes_off]
   \<and> \<not> list_ex is_note_on (midiSent (highlightStep 2 demo_viewer))
   \<and> \<not> list_ex is_note_on (midiSent (handleMidiMessage [0xB0, 22, 2] demo_viewer))
   \<and> returned (highlightStep_nv 2 demo_viewer_nv)
   \<and> midiSent_nv (state_of (highlightStep_nv 2 demo_viewer_nv)) = [[0x90, 62, 90], [0x90, 65, 90]]
   \<and> midiSent_nv (state_of (highlightStep_nv 0 demo_viewer_nv)) = []
   \<and> handleMIDIIn_nv [0xB0, 22, 2] demo_viewer_nv = highlightStep_nv 2 demo_viewer_nv"
  using note_output_gating [where s = demo_viewer and k = 2 and d = "[0xB0, 22, 2]"
      and v = demo_viewer_nv and status = "0xB0" and cc = 22 and val = 2 and others = "[]"]
    note_output_gating [where s = demo_viewer and k = 0 and v = demo_viewer_nv]
  by (simp add: demo_viewer_def initial_viewer_def all_notes_off_def is_note_on_def
      byte_or_zero_def demo_viewer_nv_fields demo_noteOn_nv)

text \<open>
  The statement of the specification fails for the note-sending viewer, which is never
  told whether its slide is shown: a raw controller message selecting step 2 makes it
  hand the two Note-On of that step to its output port, and no All Notes Off.
\<close>

theorem note_output_gating_counterexample:
  "midiSent_nv (state_of (handleMIDIIn_nv [0xB0, 22, 2] demo_viewer_nv))
     = [[0x90, 62, 90], [0x90, 65, 90]]
   \<and> list_all is_note_on (midiSent_nv (state_of (handleMIDIIn_nv [0xB0, 22, 2] demo_viewer_nv)))
   \<and> all_notes_off \<notin> set (midiSent_nv (state_of (handleMIDIIn_nv [0xB0, 22, 2] demo_viewer_nv)))"
  by (simp add: handleMIDIIn_nv_def demo_viewer_nv_fields highlightStep_nv_sent
      highlightStep_nv_returned demo_noteOn_nv is_note_on_def byte_or_zero_def
      all_notes_off_def)

text \<open>
  Claim C7 (deactivating twice), as the code has it. Handling
  \<^verbatim>\<open>harmony-deactivate\<close> a second time leaves the viewer in the state the first one
  produced, inactive, except for the output: each of the two calls hands one All Notes
  Off to a bound port. With no port bound the second call changes nothing at all.
\<close>

theorem deactivate_twice:
  "onMessage HarmonyDeactivate (onMessage HarmonyDeactivate s) =
     (onMessage HarmonyDeactivate s)
       \<lparr>midiSent := midiSent (onMessage HarmonyDeactivate s) @
          (case midiOut s of None \<Rightarrow> [] | Some p \<Rightarrow> [all_notes_off])\<rparr>
   \<and> isActiveViewer (onMessage HarmonyDeactivate s) = False"
  by (simp add: onMessage_def viewer_eqs all_notes_off_def split: option.splits)

text \<open>
  The statement of the specification, at most one All Notes Off across the two calls,
  fails for the example viewer, whose port is bound: two are sent.
\<close>

theorem deactivate_twice_counterexample:
  "length (filter (\<lambda>m. m = all_notes_off)
     (midiSent (onMessage HarmonyDeactivate (onMessage HarmonyDeactivate demo_viewer)))) = 2"
  by (simp add: onMessage_def sendAllNotesOff_def sendCC_def clampInt_def Math_trunc_def
      all_notes_off_def demo_viewer_def initial_viewer_def)

text \<open>
  Claim C9 (controller messages while inactive), as the code has it. An embedded viewer
  that is not active returns from \<^verbatim>\<open>handleMidiMessage\<close> at once: every incoming
  message, the step-select controller included, leaves the whole state as it is, so
  neither highlight nor overlay moves. What is independent of the active flag is
  \<^verbatim>\<open>highlightStep\<close> itself: called directly, it sets the same step index, highlight
  and overlay whether the viewer is active or not.
\<close>

theorem inactive_controller_ignored:
  "(\<not> isActiveViewer s \<and> IS_EMBEDDED s \<longrightarrow> handleMidiMessage d s = s)
   \<and> highlightedStep (highlightStep k (s\<lparr>isActiveViewer := False\<rparr>)) =
       highlightedStep (highlightStep k (s\<lparr>isActiveViewer := True\<rparr>))
   \<and> hv_highlight (highlightStep k (s\<lparr>isActiveViewer := False\<rparr>)) =
       hv_highlight (highlightStep k (s\<lparr>isActiveViewer := True\<rparr>))
   \<and> elOverlay (highlightStep k (s\<lparr>isActiveViewer := False\<rparr>)) =
       elOverlay (highlightStep k (s\<lparr>isActiveViewer := True\<rparr>))"
  by (simp add: handleMidiMessage_def highlightStep_def Let_def viewer_eqs split: option.splits)

text \<open>
  The example viewer is embedded and inactive: the controller message for step 2 leaves
  it unchanged, while a direct \<^verbatim>\<open>highlightStep(2)\<close> selects step 2, highlights its
  note and shows its labels.
\<close>

theorem inactive_controller_ignored_witness:
  "handleMidiMessage [0xB0, 22, 2] demo_viewer = demo_viewer
   \<and> highlightedStep (highlightStep 2 demo_viewer) = 2
   \<and> hv_highlight (highlightStep 2 demo_viewer) = {''n2''}
   \<and> elOverlay (highlightStep 2 demo_viewer) =
       \<lparr>hidden = False, style_left = Some 45, style_top = Some 96,
        stufe_text = ''V'', function_text = ''D''\<rparr>"
  using inactive_controller_ignored [of demo_viewer "[0xB0, 22, 2]" 2]
  by (simp add: highlightStep_def Let_def viewer_eqs clampInt_def Math_trunc_def
      demo_viewer_fields demo_viewer_overlay at_or_empty_def)

text \<open>
  The statement of the specification fails for the example viewer: after the
  step-select controller message with value 2 the step index is not 2, nothing is
  highlighted and the overlay is still hidden.
\<close>

theorem inactive_controller_counterexample:
  "\<not> isActiveViewer demo_viewer \<and> IS_EMBEDDED demo_viewer
   \<and> highlightedStep (handleMidiMessage [0xB0, 22, 2] demo_viewer) \<noteq> 2
   \<and> hv_highlight (handleMidiMessage [0xB0, 22, 2] demo_viewer) = {}
   \<and> hidden (elOverlay (handleMidiMessage [0xB0, 22, 2] demo_viewer))"
  by (simp add: handleMidiMessage_def demo_viewer_def initial_viewer_def)

section \<open>MIDI input and step selection\<close>

text \<open>
  Claim C10 (frame property of the MIDI input). In the drop-in viewer a message whose
  status byte has a high nibble other than \<open>0xB0\<close>, or whose controller number (the low
  seven bits of the second byte) is not 22, leaves the whole state unchanged: step,
  highlight, overlay and output. In the chord-safe viewer the same holds for a message
  that is no Control Change or whose controller byte is not the configured
  \<^verbatim>\<open>CC_SELECT\<close>.
\<close>

theorem midi_input_frame:
  "(byte_or_zero d 0 AND 0xF0 \<noteq> 0xB0 \<or> byte_or_zero d 1 AND 0x7F \<noteq> 22
      \<longrightarrow> handleMidiMessage d s = s)
   \<and> (status AND 0xF0 \<noteq> 0xB0 \<or> Some cc \<noteq> CC_SELECT_cs c
      \<longrightarrow> handleMIDIIn_cs (status, cc, v) c = c)"
  by (auto simp: handleMidiMessage_def handleMIDIIn_cs_def Let_def)

text \<open>
  A Note-On and a Control Change 7 leave an active drop-in viewer unchanged; a Note-On
  and a Control Change 7 leave the chord-safe viewer unchanged.
\<close>

theorem midi_input_frame_witness:
  "handleMidiMessage [0x90, 60, 100] (demo_viewer\<lparr>isActiveViewer := True\<rparr>)
     = demo_viewer\<lparr>isActiveViewer := True\<rparr>
   \<and> handleMidiMessage [0xB0, 7, 100] (demo_viewer\<lparr>isActiveViewer := True\<rparr>)
     = demo_viewer\<lparr>isActiveViewer := True\<rparr>
   \<and> handleMIDIIn_cs (0x90, 22, 1) demo_viewer_cs = demo_viewer_cs
   \<and> handleMIDIIn_cs (0xB0, 7, 1) demo_viewer_cs = demo_viewer_cs"
  using midi_input_frame [of "[0x90, 60, 100]" "demo_viewer\<lparr>isActiveViewer := True\<rparr>" "0x90" 22 demo_viewer_cs 1]
    midi_input_frame [of "[0xB0, 7, 100]" "demo_viewer\<lparr>isActiveViewer := True\<rparr>" "0xB0" 7 demo_viewer_cs 1]
  by (simp add: byte_or_zero_def demo_viewer_cs_def)

text \<open>
  Claim C5 (the selected step index), as the code has it. In the drop-in viewer
  \<^verbatim>\<open>highlightStep(n)\<close> sets \<^verbatim>\<open>highlightedStep\<close> to \<open>n\<close> clamped into
  \<open>[0, stepCount]\<close>, for every integer \<open>n\<close>. In the chord-safe viewer
  \<^verbatim>\<open>highlightStep(n)\<close> sets \<^verbatim>\<open>currentStep\<close> to \<open>n\<close> when
  \<open>1 \<le> n \<le> stepCount\<close> and to 0 for every other \<open>n\<close>, also for \<open>n > stepCount\<close>; the
  result lies in \<open>[0, stepCount]\<close> there too.
\<close>

theorem step_index_selected:
  "highlightedStep (highlightStep n s) = max 0 (min (int (length (harmonicSteps s))) n)
   \<and> currentStep_cs (highlightStep_cs n c) =
       (if 1 \<le> n \<and> n \<le> int (length (steps_cs c)) then n else 0)
   \<and> 0 \<le> currentStep_cs (highlightStep_cs n c)
   \<and> currentStep_cs (highlightStep_cs n c) \<le> int (length (steps_cs c))"
  by (simp add: highlightStep_index highlightStep_cs_def clearHighlight_cs_def Let_def)

text \<open>With three steps, 5 gives 3 and -4 gives 0 in the drop-in viewer; both give 0 in the chord-safe one.\<close>

theorem step_index_selected_witness:
  "highlightedStep (highlightStep 5 demo_viewer) = 3
   \<and> highlightedStep (highlightStep (- 4) demo_viewer) = 0
   \<and> currentStep_cs (highlightStep_cs 5 demo_viewer_cs) = 0
   \<and> currentStep_cs (highlightStep_cs (- 4) demo_viewer_cs) = 0"
  using step_index_selected [of 5 demo_viewer demo_viewer_cs]
    step_index_selected [of "- 4" demo_viewer demo_viewer_cs]
  by (simp add: demo_viewer_def demo_viewer_cs_def)

text \<open>
  The statement of the specification, that \<open>n > stepCount\<close> always results in
  \<open>stepCount\<close>, fails for the chord-safe viewer with three steps at \<open>n = 5\<close>.
\<close>

theorem step_index_counterexample:
  "currentStep_cs (highlightStep_cs 5 demo_viewer_cs)
     \<noteq> max 0 (min (int (length (steps_cs demo_viewer_cs))) 5)"
  by (simp add: highlightStep_cs_def clearHighlight_cs_def demo_viewer_cs_def)

section \<open>MIDI ports\<close>

lemma normalizePortName_demo_port: "normalizePortName demo_port = ascii ''iacbus1''"
  by (simp add: demo_port_def normalizePortName_def ascii_def toLowerCase_def replace_units_def
     is_space_unit_def is_port_name_unit_def)

lemma normalizePortName_hint:
  "normalizePortName (ascii ''browser->max'') = ascii ''browser->max''"
  by (simp add: normalizePortName_def ascii_def toLowerCase_def replace_units_def
     is_space_unit_def is_port_name_unit_def)

lemma pickMidiPort_None: "(pickMidiPort ports hint = None) = (ports = [])"
  by (simp add: pickMidiPort_def Let_def split: option.splits)

lemma maybeSendStepCount_cs_ports:
  "midiOut_cs (maybeSendStepCount_cs c) = midiOut_cs c"
  "midiIn_cs (maybeSendStepCount_cs c) = midiIn_cs c"
  "MIDI_OUT_NAME_cs (maybeSendStepCount_cs c) = MIDI_OUT_NAME_cs c"
  "MIDI_IN_NAME_cs (maybeSendStepCount_cs c) = MIDI_IN_NAME_cs c"
  by (simp_all add: maybeSendStepCount_cs_def sendStepCount_cs_def split: option.splits)

lemma fold_bindInput_cs:
  "midiOut_cs (fold bindInput_cs ins c) = midiOut_cs c
   \<and> MIDI_OUT_NAME_cs (fold bindInput_cs ins c) = MIDI_OUT_NAME_cs c
   \<and> MIDI_IN_NAME_cs (fold bindInput_cs ins c) = MIDI_IN_NAME_cs c"
  by (induction ins arbitrary: c) (simp_all add: bindInput_cs_def)

lemma fold_bindOutput_cs_none:
  "\<not> list_ex (\<lambda>n. js_includes n (MIDI_OUT_NAME_cs c)) outs \<Longrightarrow> fold bindOutput_cs outs c = c"
  by (induction outs arbitrary: c) (simp_all add: bindOutput_cs_def)

lemma initMIDI_cs_unbound:
  "\<not> list_ex (\<lambda>n. js_includes n (MIDI_OUT_NAME_cs c)) outs \<Longrightarrow>
   midiOut_cs (initMIDI_cs ins outs c) = midiOut_cs c"
  by (simp add: initMIDI_cs_def maybeSendStepCount_cs_ports fold_bindOutput_cs_none fold_bindInput_cs)

text \<open>
  Claim C8 (absence of a matching MIDI port), as the code has it.
  \<^item> \<^verbatim>\<open>pickMidiPort\<close> of the drop-in viewer returns null only when there is no port
    at all: with ports available and none matching, its last step binds the first one.
  \<^item> \<^verbatim>\<open>initMIDI\<close> of the chord-safe viewer leaves \<^verbatim>\<open>midiOut\<close> as it was (null
    at start) when no output port's name includes the configured name.
  \<^item> With no output bound every emission call returns the state unchanged:
    \<^verbatim>\<open>sendStepCount\<close> of the chord-safe viewer, and \<^verbatim>\<open>sendCC\<close>,
    \<^verbatim>\<open>sendStepCountCc\<close>, \<^verbatim>\<open>sendSlideIndexCc\<close>, \<^verbatim>\<open>sendAllNotesOff\<close> and
    \<^verbatim>\<open>sendStepNotesAsMidi\<close> of the drop-in viewer; \<^verbatim>\<open>highlightStep\<close> sends nothing.
  \<^item> The step index, the highlight and the overlay that \<^verbatim>\<open>highlightStep\<close> produces
    are the same with no port and with any port bound.
\<close>

theorem port_absence:
  "(pickMidiPort ports hint = None) = (ports = [])
   \<and> (\<not> list_ex (\<lambda>n. js_includes n (MIDI_OUT_NAME_cs c)) outs
        \<longrightarrow> midiOut_cs (initMIDI_cs ins outs c) = midiOut_cs c)
   \<and> (midiOut_cs c = None \<longrightarrow> sendStepCount_cs c = c)
   \<and> (midiOut s = None \<longrightarrow>
        sendCC cc v ch s = s \<and> sendStepCountCc s = s \<and> sendSlideIndexCc i s = s
        \<and> sendAllNotesOff ch s = s \<and> sendStepNotesAsMidi k s = s
        \<and> midiSent (highlightStep k s) = midiSent s)
   \<and> highlightedStep (highlightStep k (s\<lparr>midiOut := None\<rparr>)) =
       highlightedStep (highlightStep k (s\<lparr>midiOut := Some p\<rparr>))
   \<and> hv_highlight (highlightStep k (s\<lparr>midiOut := None\<rparr>)) =
       hv_highlight (highlightStep k (s\<lparr>midiOut := Some p\<rparr>))
   \<and> elOverlay (highlightStep k (s\<lparr>midiOut := None\<rparr>)) =
       elOverlay (highlightStep k (s\<lparr>midiOut := Some p\<rparr>))"
  by (simp add: pickMidiPort_None initMIDI_cs_unbound sendStepCount_cs_def
      sendCC_def sendStepCountCc_def sendSlideIndexCc_def sendAllNotesOff_def
      sendStepNotesAsMidi_def highlightStep_def Let_def updateAnalysisOverlay_eq
      applySvgHighlight_eq notifyParentOfHeight_eq overlay_after_cong split: option.splits)

text \<open>
  With no port at all nothing is picked; the chord-safe viewer offered only the example
  port stays unbound and its step count is a no-op; the example viewer without its port
  sends nothing when step 2 is selected, and still shows step 2.
\<close>

theorem port_absence_witness:
  "pickMidiPort [] (ascii ''browser->max'') = None
   \<and> midiOut_cs (initMIDI_cs [] [demo_port] demo_viewer_cs) = None
   \<and> sendStepCount_cs demo_viewer_cs = demo_viewer_cs
   \<and> sendAllNotesOff 0 (demo_viewer\<lparr>midiOut := None\<rparr>) = demo_viewer\<lparr>midiOut := None\<rparr>
   \<and> midiSent (highlightStep 2 (demo_viewer\<lparr>midiOut := None\<rparr>)) = []
   \<and> highlightedStep (highlightStep 2 (demo_viewer\<lparr>midiOut := None\<rparr>)) = 2"
  using port_absence [where ports = "[]" and hint = "ascii ''browser->max''"
      and c = demo_viewer_cs and outs = "[demo_port]" and ins = "[]"
      and s = "demo_viewer\<lparr>midiOut := None\<rparr>" and k = 2 and ch = 0]
  by (simp add: demo_viewer_cs_def demo_port_def ascii_def demo_viewer_fields
      highlightStep_index)

text \<open>
  The statement of the specification, that the binding stays null when no port's name
  matches the hint, fails for the drop-in viewer: the example port does not match the
  hint \<^verbatim>\<open>browser->max\<close> and is bound all the same.
\<close>

theorem port_absence_counterexample:
  "\<not> js_includes (normalizePortName demo_port) (normalizePortName (ascii ''browser->max''))
   \<and> pickMidiPort [demo_port] (ascii ''browser->max'') = Some demo_port"
  apply (simp add: pickMidiPort_def normalizePortName_demo_port normalizePortName_hint Let_def)
  apply (simp add: ascii_def)
  done

section \<open>Activation by the plugin\<close>

lemma onMessage_active:
  "isActiveViewer (onMessage (HarmonyActivate i) w)"
  "\<not> isActiveViewer (onMessage HarmonyDeactivate w)"
  by (simp_all add: onMessage_def Let_def highlightStep_def sendStepCountCc_def
      sendSlideIndexCc_def viewer_eqs)

lemma notify_iframe_sections: "sections (notify_iframe ev f) = sections f"
  by (simp add: notify_iframe_def split: option.splits)

lemma notify_iframe_window:
  "(contentWindow (notify_iframe ev f) = None) = (contentWindow f = None)"
  by (simp add: notify_iframe_def split: option.splits)

lemma in_current_slide_notify:
  "in_current_slide ev (notify_iframe ev' f) = in_current_slide ev f"
  by (simp add: in_current_slide_def notify_iframe_sections split: option.splits)

text \<open>After a round a viewer is active exactly when its iframe lies in the current slide.\<close>

lemma is_active_notify:
  "is_active (notify_iframe ev f) = (contentWindow f \<noteq> None \<and> in_current_slide ev f)"
  by (simp add: is_active_def notify_iframe_def onMessage_active split: option.splits)

lemma active_after_round:
  "active_viewers (activateCurrentIframe ev d) =
     map (notify_iframe ev)
       (filter (\<lambda>f. contentWindow f \<noteq> None \<and> in_current_slide ev f) (iframes d))"
  by (simp add: active_viewers_def activateCurrentIframe_def filter_map o_def is_active_notify)

lemma in_slide_after_round:
  "length (filter (in_current_slide ev) (iframes (activateCurrentIframe ev' d))) =
   length (filter (in_current_slide ev) (iframes d))"
  by (simp add: activateCurrentIframe_def filter_map o_def in_current_slide_notify)

lemma in_slide_after_rounds:
  "length (filter (in_current_slide ev) (iframes (fold activateCurrentIframe evs d))) =
   length (filter (in_current_slide ev) (iframes d))"
  by (induction evs arbitrary: d) (simp_all add: in_slide_after_round)

lemma length_filter_conj_le:
  "length (filter (\<lambda>x. P x \<and> Q x) xs) \<le> length (filter Q xs)"
  by (induction xs) auto

lemma demo_viewer_inactive:
  "is_active \<lparr>contentWindow = Some demo_viewer, sections = ss\<rparr> = False"
  by (simp add: is_active_def demo_viewer_fields)

lemma reached_placed:
  "(contentWindow f \<noteq> None \<and> in_current_slide ev f) = reached ev (placed f)"
  by (simp add: reached_def placed_def in_current_slide_def split: option.splits)

lemma snd_placed: "snd (placed f) = sections f"
  by (simp add: placed_def)

lemma placed_notify: "placed (notify_iframe ev f) = placed f"
  by (simp add: placed_def notify_iframe_sections notify_iframe_window)

lemma placed_rounds:
  "map placed (iframes (fold activateCurrentIframe evs d)) = map placed (iframes d)"
  by (induction evs arbitrary: d) (simp_all add: activateCurrentIframe_def o_def placed_notify)

lemma sections_of_reached:
  "map sections (filter (\<lambda>f. contentWindow f \<noteq> None \<and> in_current_slide ev f) fs)
     = map snd (filter (reached ev) (map placed fs))"
  by (induction fs) (simp_all add: reached_placed [symmetric] snd_placed)

lemma active_sections_after_rounds:
  "map sections (active_viewers (fold activateCurrentIframe (evs @ [ev]) d)) =
   map sections (filter (\<lambda>f. contentWindow f \<noteq> None \<and> in_current_slide ev f) (iframes d))"
proof -
  have "map sections (active_viewers (fold activateCurrentIframe (evs @ [ev]) d))
      = map sections (filter (\<lambda>f. contentWindow f \<noteq> None \<and> in_current_slide ev f)
          (iframes (fold activateCurrentIframe evs d)))"
    by (simp add: active_after_round o_def notify_iframe_sections)
  also have "\<dots> = map snd (filter (reached ev) (map placed (iframes (fold activateCurrentIframe evs d))))"
    by (rule sections_of_reached)
  also have "\<dots> = map snd (filter (reached ev) (map placed (iframes d)))"
    by (simp only: placed_rounds)
  also have "\<dots> = map sections (filter (\<lambda>f. contentWindow f \<noteq> None \<and> in_current_slide ev f) (iframes d))"
    by (rule sections_of_reached [symmetric])
  finally show ?thesis .
qed

text \<open>
  Claim C1 (activation exclusivity), as the code has it. On every navigation event the
  plugin activates each viewer whose iframe lies in the current slide and deactivates
  every other one: after a sequence of navigation events the active viewers are those
  of the iframes in the slide that is current at the last event. So, starting from a
  deck in which no viewer is active, after every sequence of navigation events at most
  one viewer is active, provided that no slide that becomes current holds more than one
  viewer iframe.
\<close>

theorem activation_exclusive:
  assumes "active_viewers d = []"
    and "\<forall>ev \<in> set evs. length (filter (in_current_slide ev) (iframes d)) \<le> 1"
  shows "length (active_viewers (fold activateCurrentIframe evs d)) \<le> 1
    \<and> (evs \<noteq> [] \<longrightarrow>
         map sections (active_viewers (fold activateCurrentIframe evs d)) =
         map sections (filter (\<lambda>f. contentWindow f \<noteq> None \<and> in_current_slide (last evs) f)
                         (iframes d)))"
proof (cases evs rule: rev_cases)
  case Nil
  with assms(1) show ?thesis by simp
next
  case (snoc evs' ev)
  have "length (active_viewers (fold activateCurrentIframe evs d))
        = length (filter (\<lambda>f. contentWindow f \<noteq> None \<and> in_current_slide ev f)
                    (iframes (fold activateCurrentIframe evs' d)))"
    by (simp add: snoc active_after_round)
  also have "\<dots> \<le> length (filter (in_current_slide ev) (iframes (fold activateCurrentIframe evs' d)))"
    by (rule length_filter_conj_le)
  also have "\<dots> = length (filter (in_current_slide ev) (iframes d))"
    by (rule in_slide_after_rounds)
  also have "\<dots> \<le> 1"
    using assms(2) snoc by simp
  finally have "length (active_viewers (fold activateCurrentIframe evs d)) \<le> 1" .
  moreover have "map sections (active_viewers (fold activateCurrentIframe evs d)) =
         map sections (filter (\<lambda>f. contentWindow f \<noteq> None \<and> in_current_slide (last evs) f)
                         (iframes d))"
    unfolding snoc by (simp only: active_sections_after_rounds last_snoc)
  ultimately show ?thesis by simp
qed

text \<open>
  The deck with one viewer on slide 1 and one on slide 2: after showing slide 1 and then
  slide 2, the first viewer is inactive and the second active.
\<close>

theorem activation_exclusive_witness:
  "active_viewers demo_deck = []
   \<and> length (filter (in_current_slide (slide_shown 1)) (iframes demo_deck)) \<le> 1
   \<and> length (filter (in_current_slide (slide_shown 2)) (iframes demo_deck)) \<le> 1
   \<and> length (active_viewers (fold activateCurrentIframe [slide_shown 1, slide_shown 2] demo_deck)) \<le> 1
   \<and> map is_active (iframes (fold activateCurrentIframe [slide_shown 1, slide_shown 2] demo_deck))
       = [False, True]"
  using activation_exclusive [of demo_deck "[slide_shown 1, slide_shown 2]"]
  by (simp add: active_viewers_def demo_deck_def demo_viewer_inactive in_current_slide_def
      slide_shown_def activateCurrentIframe_def is_active_notify notify_iframe_sections
      notify_iframe_window)

text \<open>
  The statement of the specification, at most one active viewer after every round, fails
  for the deck with two viewers on slide 1: showing slide 1 activates both.
\<close>

theorem activation_exclusive_counterexample:
  "length (active_viewers (activateCurrentIframe (slide_shown 1) crowded_deck)) = 2"
  by (simp add: active_after_round crowded_deck_def in_current_slide_def slide_shown_def)

section \<open>The baseline of the overlay viewer\<close>

lemma getStepScreenBBox_ov_cong:
  "getStepScreenBBox_ov i (s\<lparr>elOverlay_ov := a\<rparr>) = getStepScreenBBox_ov i s"
  "getStepScreenBBox_ov i (s\<lparr>overlayClasses_ov := b\<rparr>) = getStepScreenBBox_ov i s"
  "getStepScreenBBox_ov i (s\<lparr>globalBaselineY_ov := y\<rparr>) = getStepScreenBBox_ov i s"
  "getStepScreenBBox_ov i (s\<lparr>posted_ov := q\<rparr>) = getStepScreenBBox_ov i s"
  "getStepScreenBBox_ov i (s\<lparr>viewerRect_ov := vr\<rparr>) = getStepScreenBBox_ov i s"
  by (simp_all add: getStepScreenBBox_ov_def)

lemma updateOverlayForStep_ov_frame:
  "steps_ov (updateOverlayForStep_ov i s) = steps_ov s"
  "layout_ov (updateOverlayForStep_ov i s) = layout_ov s"
  "viewerRect_ov (updateOverlayForStep_ov i s) = viewerRect_ov s"
  "analysisData_ov (updateOverlayForStep_ov i s) = analysisData_ov s"
  "currentStep_ov (updateOverlayForStep_ov i s) = currentStep_ov s"
  by (simp_all add: updateOverlayForStep_ov_def positionOverlayAtStep_ov_def hideOverlay_ov_def
      getStepScreenBBox_ov_cong Let_def split: option.splits prod.splits)

lemma updateOverlayForStep_ov_shown:
  assumes "has_entry_ov i s" and "getStepScreenBBox_ov i s = Some (minX, maxX, maxY)"
  shows "globalBaselineY_ov (updateOverlayForStep_ov i s) =
           Some (case globalBaselineY_ov s of
                   None \<Rightarrow> (maxY - rect_top (viewerRect_ov s)) + 10
                 | Some y \<Rightarrow> y)"
    and "style_top (elOverlay_ov (updateOverlayForStep_ov i s)) =
           globalBaselineY_ov (updateOverlayForStep_ov i s)"
    and "hidden (elOverlay_ov (updateOverlayForStep_ov i s)) = False"
  using assms
  by (auto simp: has_entry_ov_def updateOverlayForStep_ov_def positionOverlayAtStep_ov_def
      getStepScreenBBox_ov_cong Let_def split: option.splits prod.splits)

lemma updateOverlayForStep_ov_keeps:
  "globalBaselineY_ov s = Some y \<Longrightarrow> globalBaselineY_ov (updateOverlayForStep_ov i s) = Some y"
  by (simp add: updateOverlayForStep_ov_def positionOverlayAtStep_ov_def hideOverlay_ov_def
      getStepScreenBBox_ov_cong Let_def split: option.splits prod.splits)

lemma shown_after_update:
  "has_entry_ov j (updateOverlayForStep_ov i s) = has_entry_ov j s"
  "getStepScreenBBox_ov j (updateOverlayForStep_ov i s) = getStepScreenBBox_ov j s"
  by (simp_all add: has_entry_ov_def getStepScreenBBox_ov_def updateOverlayForStep_ov_frame)

lemma getStepScreenBBox_ov_layout:
  "getStepScreenBBox_ov i (s\<lparr>globalBaselineY_ov := y, layout_ov := lay, viewerRect_ov := vr\<rparr>)
     = getStepScreenBBox_ov i (s\<lparr>layout_ov := lay\<rparr>)"
  by (simp add: getStepScreenBBox_ov_def cong: if_cong)

lemma has_entry_ov_cong:
  "has_entry_ov i (s\<lparr>globalBaselineY_ov := y\<rparr>) = has_entry_ov i s"
  "has_entry_ov i (s\<lparr>layout_ov := lay\<rparr>) = has_entry_ov i s"
  "has_entry_ov i (s\<lparr>viewerRect_ov := vr\<rparr>) = has_entry_ov i s"
  by (simp_all add: has_entry_ov_def)

lemma onResize_ov_baseline:
  "globalBaselineY_ov (onResize_ov lay vr s) =
     globalBaselineY_ov
       (repositionOverlayForCurrentStep_ov
          (s\<lparr>globalBaselineY_ov := None, layout_ov := lay, viewerRect_ov := vr\<rparr>))"
  by (simp add: onResize_ov_def notifyParentOfHeight_ov_def Let_def split: option.splits)

text \<open>
  Claim C6 (baseline stability), in the overlay viewer.
  \<^item> A baseline that is known is never recomputed by an overlay update.
  \<^item> Two overlay updates that show the overlay, for any two steps, put it at the same
    vertical position, which is the cached baseline.
  \<^item> With no baseline known, the first update that shows the overlay computes it from
    the lowest bottom edge of that step: \<open>maxY - viewerRect.top + 10\<close>.
  \<^item> The resize listener forgets the cached baseline: the baseline after it does not
    depend on the one before. It is unknown when no step is selected, and recomputed
    in the new layout by the listener's own overlay update when a step is selected.
\<close>

theorem baseline_stability:
  "(globalBaselineY_ov s = Some y \<longrightarrow> globalBaselineY_ov (updateOverlayForStep_ov i s) = Some y)
   \<and> (has_entry_ov i s \<and> getStepScreenBBox_ov i s \<noteq> None
        \<and> has_entry_ov j s \<and> getStepScreenBBox_ov j s \<noteq> None \<longrightarrow>
        style_top (elOverlay_ov (updateOverlayForStep_ov i s))
          = globalBaselineY_ov (updateOverlayForStep_ov i s)
        \<and> style_top (elOverlay_ov (updateOverlayForStep_ov j (updateOverlayForStep_ov i s)))
          = style_top (elOverlay_ov (updateOverlayForStep_ov i s)))
   \<and> (globalBaselineY_ov s = None \<and> has_entry_ov i s
        \<and> getStepScreenBBox_ov i s = Some (minX, maxX, maxY) \<longrightarrow>
        globalBaselineY_ov (updateOverlayForStep_ov i s)
          = Some ((maxY - rect_top (viewerRect_ov s)) + 10))
   \<and> globalBaselineY_ov (onResize_ov lay vr (s\<lparr>globalBaselineY_ov := cached\<rparr>))
       = globalBaselineY_ov (onResize_ov lay vr s)
   \<and> (currentStep_ov s \<le> 0 \<longrightarrow> globalBaselineY_ov (onResize_ov lay vr s) = None)
   \<and> (currentStep_ov s > 0 \<and> has_entry_ov (currentStep_ov s) s
        \<and> getStepScreenBBox_ov (currentStep_ov s) (s\<lparr>layout_ov := lay\<rparr>) = Some (minX', maxX', maxY')
        \<longrightarrow> globalBaselineY_ov (onResize_ov lay vr s) = Some ((maxY' - rect_top vr) + 10))"
proof (intro conjI impI)
  assume "globalBaselineY_ov s = Some y"
  then show "globalBaselineY_ov (updateOverlayForStep_ov i s) = Some y"
    by (rule updateOverlayForStep_ov_keeps)
next
  assume a: "has_entry_ov i s \<and> getStepScreenBBox_ov i s \<noteq> None
        \<and> has_entry_ov j s \<and> getStepScreenBBox_ov j s \<noteq> None"
  then obtain bi bj where bi: "getStepScreenBBox_ov i s = Some bi"
    and bj: "getStepScreenBBox_ov j s = Some bj" by auto
  obtain x1 x2 m where bi': "bi = (x1, x2, m)" by (cases bi) 
  obtain x1' x2' m' where bj': "bj = (x1', x2', m')" by (cases bj)
  show "style_top (elOverlay_ov (updateOverlayForStep_ov i s))
          = globalBaselineY_ov (updateOverlayForStep_ov i s)"
    using a bi bi' by (simp add: updateOverlayForStep_ov_shown(2))
  let ?s1 = "updateOverlayForStep_ov i s"
  have e1: "globalBaselineY_ov ?s1 \<noteq> None"
    using a bi bi' updateOverlayForStep_ov_shown(1)[of i s x1 x2 m] by simp
  then obtain y1 where y1: "globalBaselineY_ov ?s1 = Some y1" by auto
  have "style_top (elOverlay_ov (updateOverlayForStep_ov j ?s1))
          = globalBaselineY_ov (updateOverlayForStep_ov j ?s1)"
    using a bj bj' by (simp add: updateOverlayForStep_ov_shown(2) shown_after_update)
  also have "\<dots> = Some y1"
    using y1 by (rule updateOverlayForStep_ov_keeps)
  also have "\<dots> = style_top (elOverlay_ov ?s1)"
    using a bi bi' y1 by (simp add: updateOverlayForStep_ov_shown(2))
  finally show "style_top (elOverlay_ov (updateOverlayForStep_ov j ?s1)) = style_top (elOverlay_ov ?s1)" .
next
  assume "globalBaselineY_ov s = None \<and> has_entry_ov i s
        \<and> getStepScreenBBox_ov i s = Some (minX, maxX, maxY)"
  then show "globalBaselineY_ov (updateOverlayForStep_ov i s)
          = Some ((maxY - rect_top (viewerRect_ov s)) + 10)"
    by (simp add: updateOverlayForStep_ov_shown(1))
next
  show "globalBaselineY_ov (onResize_ov lay vr (s\<lparr>globalBaselineY_ov := cached\<rparr>))
       = globalBaselineY_ov (onResize_ov lay vr s)"
    by (simp add: onResize_ov_baseline)
next
  assume "currentStep_ov s \<le> 0"
  then show "globalBaselineY_ov (onResize_ov lay vr s) = None"
    by (simp add: onResize_ov_baseline repositionOverlayForCurrentStep_ov_def)
next
  let ?s' = "s\<lparr>globalBaselineY_ov := None, layout_ov := lay, viewerRect_ov := vr\<rparr>"
  assume a: "currentStep_ov s > 0 \<and> has_entry_ov (currentStep_ov s) s
        \<and> getStepScreenBBox_ov (currentStep_ov s) (s\<lparr>layout_ov := lay\<rparr>) = Some (minX', maxX', maxY')"
  have b: "getStepScreenBBox_ov (currentStep_ov s) ?s' = Some (minX', maxX', maxY')"
    using a by (simp add: getStepScreenBBox_ov_layout)
  have "globalBaselineY_ov (updateOverlayForStep_ov (currentStep_ov s) ?s')
          = Some ((maxY' - rect_top vr) + 10)"
    using a updateOverlayForStep_ov_shown(1) [OF _ b] by (simp add: has_entry_ov_cong)
  then show "globalBaselineY_ov (onResize_ov lay vr s) = Some ((maxY' - rect_top vr) + 10)"
    using a by (simp add: onResize_ov_baseline repositionOverlayForCurrentStep_ov_def)
qed


lemma demo_viewer_ov_shown:
  "has_entry_ov 1 demo_viewer_ov"
  "has_entry_ov 2 demo_viewer_ov"
  "getStepScreenBBox_ov 1 demo_viewer_ov = Some (10, 20, 60)"
  "getStepScreenBBox_ov 2 demo_viewer_ov = Some (40, 50, 80)"
  "globalBaselineY_ov demo_viewer_ov = None"
  "currentStep_ov demo_viewer_ov = 0"
  "rect_top (viewerRect_ov demo_viewer_ov) = 5"
  by (simp_all add: has_entry_ov_def getStepScreenBBox_ov_def demo_viewer_ov_def demo_layout_def
      analysis_entry_def)

text \<open>
  In the example the first update, for step 1, puts the baseline at 65; the update for
  step 2, whose note lies lower, shows the overlay at 65 too; a resize with no step
  selected leaves the baseline unknown.
\<close>

theorem baseline_stability_witness:
  "has_entry_ov 1 demo_viewer_ov \<and> getStepScreenBBox_ov 1 demo_viewer_ov = Some (10, 20, 60)
   \<and> has_entry_ov 2 demo_viewer_ov \<and> getStepScreenBBox_ov 2 demo_viewer_ov = Some (40, 50, 80)
   \<and> globalBaselineY_ov (updateOverlayForStep_ov 1 demo_viewer_ov) = Some 65
   \<and> style_top (elOverlay_ov (updateOverlayForStep_ov 1 demo_viewer_ov)) = Some 65
   \<and> style_top (elOverlay_ov (updateOverlayForStep_ov 2 (updateOverlayForStep_ov 1 demo_viewer_ov)))
       = Some 65
   \<and> globalBaselineY_ov
        (onResize_ov demo_layout (viewerRect_ov demo_viewer_ov)
           (updateOverlayForStep_ov 1 demo_viewer_ov)) = None"
  using baseline_stability [where s = demo_viewer_ov and i = 1 and j = 2
      and minX = 10 and maxX = 20 and maxY = 60]
    baseline_stability [where s = "updateOverlayForStep_ov 1 demo_viewer_ov"
      and lay = demo_layout and vr = "viewerRect_ov demo_viewer_ov"]
  by (simp add: demo_viewer_ov_shown updateOverlayForStep_ov_frame)

section \<open>Pitches of a step\<close>

lemma insert_by_numeric: "insert_by numeric_order x ys = insort x ys"
  by (induction ys) auto

lemma sort_by_numeric: "sort_by numeric_order xs = sort xs"
  by (induction xs) (simp_all add: sort_by_def insert_by_numeric)

lemma set_uniq: "set (uniq xs) = set xs"
  by (induction xs) auto

lemma distinct_uniq: "distinct (uniq xs)"
  by (induction xs) (auto simp: set_uniq)

lemma sort_uniq: "sort (uniq xs) = sorted_list_of_set (set xs)"
  by (rule sorted_distinct_set_unique) (simp_all add: distinct_uniq set_uniq)

lemma computeStepPitches_sorted_set:
  "computeStepPitches tk steps =
     map (\<lambda>ids. sorted_list_of_set (set (concat (map (note_pitch tk) ids)))) steps"
  by (simp add: computeStepPitches_def sort_by_numeric sort_uniq)

lemma pnameToSemitone_table:
  "pnameToSemitone (Str (ascii ''C'')) = Some 0"
  "pnameToSemitone (Str (ascii ''D'')) = Some 2"
  "pnameToSemitone (Str (ascii ''E'')) = Some 4"
  "pnameToSemitone (Str (ascii ''F'')) = Some 5"
  "pnameToSemitone (Str (ascii ''G'')) = Some 7"
  "pnameToSemitone (Str (ascii ''A'')) = Some 9"
  "pnameToSemitone (Str (ascii ''B'')) = Some 11"
  "pnameToSemitone (Str (ascii ''c'')) = Some 0"
  "pnameToSemitone (Str (ascii ''d'')) = Some 2"
  "pnameToSemitone (Str (ascii ''e'')) = Some 4"
  "pnameToSemitone (Str (ascii ''f'')) = Some 5"
  "pnameToSemitone (Str (ascii ''g'')) = Some 7"
  "pnameToSemitone (Str (ascii ''a'')) = Some 9"
  "pnameToSemitone (Str (ascii ''b'')) = Some 11"
  "pnameToSemitone (Str (ascii ''h'')) = None"
  "pnameToSemitone Undefined = None"
  "pnameToSemitone Null = None"
  by (simp_all add: pnameToSemitone_def toLowerCase_def ascii_def)

lemma pnameToSemitone_range: "pnameToSemitone pname = Some pc \<Longrightarrow> 0 \<le> pc \<and> pc \<le> 11"
  by (auto simp: pnameToSemitone_def Let_def split: if_splits)

lemma midiFromPnameOct_formula:
  "pnameToSemitone pname = Some pc \<Longrightarrow> Number_of oct = Finite oc \<Longrightarrow>
   midiFromPnameOct pname oct =
     Some (js_add (js_mul (js_add (Finite oc) (num 1)) (num 12)) (num pc))"
  by (simp add: midiFromPnameOct_def)

lemma midiFromPnameOct_whole:
  "pnameToSemitone pname = Some pc \<Longrightarrow> Number_of oct = num n \<Longrightarrow> \<bar>n\<bar> < 2 ^ 48 \<Longrightarrow>
   midiFromPnameOct pname oct = Some (num ((n + 1) * 12 + pc))"
  using midi_value [of n pc] pnameToSemitone_range [of pname pc]
  by (simp add: midiFromPnameOct_def)

lemma midiFromPnameOct_None:
  "pnameToSemitone pname = None \<or> (\<forall>oc. Number_of oct \<noteq> Finite oc) \<Longrightarrow>
   midiFromPnameOct pname oct = None"
  by (auto simp: midiFromPnameOct_def split: option.splits jsnumber.splits)

lemma note_pitch_skipped:
  "tk noteId = Raises \<or> tk noteId = NotAnObject \<Longrightarrow> note_pitch tk noteId = []"
  by (auto simp: note_pitch_def)

lemma js_or_same: "js_or (js_or p Undefined) p = p"
  by (simp add: js_or_def)

lemma js_or_octave_same: "js_or_octave (js_or_octave p OctUndefined) p = p"
  by (simp add: js_or_octave_def)

lemma note_pitch_plain:
  "tk noteId = Attrs a \<Longrightarrow> attr_pitch a = None \<Longrightarrow>
   note_pitch tk noteId =
     (case midiFromPnameOct (attr_pname a) (attr_oct a) of
        Some (Finite midi) \<Rightarrow> [midi]
      | Some NaN \<Rightarrow> []
      | Some PosInfinity \<Rightarrow> []
      | Some NegInfinity \<Rightarrow> []
      | None \<Rightarrow> [])"
  by (simp add: note_pitch_def js_or_same js_or_octave_same)

lemma demo_note_pitch:
  "note_pitch demo_toolkit ''n1'' = [67]"
  "note_pitch demo_toolkit ''n2'' = [60]"
  "note_pitch demo_toolkit ''n3'' = [60]"
  "note_pitch demo_toolkit ''n4'' = []"
  "note_pitch demo_toolkit ''n5'' = []"
  "note_pitch demo_toolkit ''n6'' = [66]"
  by (simp_all add: note_pitch_def demo_toolkit_def note_attrs_def js_or_same js_or_octave_same
      midiFromPnameOct_def pnameToSemitone_table binary64_eval)

lemma sorted_distinct_steps:
  "list_all (\<lambda>ps. sorted ps \<and> distinct ps) (computeStepPitches tk steps)"
  by (simp add: computeStepPitches_sorted_set list_all_iff)

lemma demo_midi_nv:
  "getMidiFromNoteGroupId_nv demo_toolkit ''n1'' = Returned (Some (MidiNumber (Finite 67)))"
  "getMidiFromNoteGroupId_nv demo_toolkit ''n2'' = Returned (Some (MidiNumber (Finite 60)))"
  "getMidiFromNoteGroupId_nv demo_toolkit ''n3'' = Returned (Some (MidiNumber (Finite 60)))"
  "getMidiFromNoteGroupId_nv demo_toolkit ''n6'' = Returned (Some (MidiNumber (Finite 60)))"
  by (simp_all add: getMidiFromNoteGroupId_nv_def demo_toolkit_def note_attrs_def pcMap_def
      toLowerCase_def ascii_def binary64_eval)

text \<open>
  Claim C4 (pitch resolution), as the code has it, for \<^verbatim>\<open>computeStepPitches\<close> of the
  drop-in viewer.
  \<^item> The pitches of a step are the set of the pitches resolved for its notes, as an
    ascending list without repetition; it is empty when no note resolves.
  \<^item> A note contributes nothing when the toolkit call raises or returns no object,
    and otherwise what \<^verbatim>\<open>midiFromPnameOct\<close> gives for its attributes.
  \<^item> \<^verbatim>\<open>midiFromPnameOct\<close> is \<open>(oct + 1) * 12 + pc\<close>, in the arithmetic of
    doubles, where the pitch name is one of the seven letters, in either case, and
    \<^verbatim>\<open>Number\<close> reads the octave as a finite number, whole or not; for a whole
    octave of less than 49 bits that is the whole number \<open>(oct + 1) * 12 + pc\<close>. It is
    null where the pitch name is no such letter or \<^verbatim>\<open>Number\<close> reads the octave as
    no finite number.
  \<^item> The table is C 0, D 2, E 4, F 5, G 7, A 9, B 11; C in octave 4 is 60 and B in
    octave 3 is 59.
  The note-sending viewer has the same table, reads the octave with \<^verbatim>\<open>parseInt\<close> and
  returns the pitches in the order of the notes, which the next theorem after the
  witness shows.
\<close>

theorem pitch_resolution:
  "computeStepPitches tk steps =
     map (\<lambda>ids. sorted_list_of_set (set (concat (map (note_pitch tk) ids)))) steps
   \<and> list_all (\<lambda>ps. sorted ps \<and> distinct ps) (computeStepPitches tk steps)
   \<and> (tk noteId = Attrs a \<and> attr_pitch a = None \<longrightarrow>
        note_pitch tk noteId =
          (case midiFromPnameOct (attr_pname a) (attr_oct a) of
             Some (Finite midi) \<Rightarrow> [midi]
           | Some NaN \<Rightarrow> []
           | Some PosInfinity \<Rightarrow> []
           | Some NegInfinity \<Rightarrow> []
           | None \<Rightarrow> []))
   \<and> (tk noteId = Raises \<or> tk noteId = NotAnObject \<longrightarrow> note_pitch tk noteId = [])
   \<and> (pnameToSemitone pname = Some pc \<and> Number_of oct = Finite oc \<longrightarrow>
        midiFromPnameOct pname oct =
          Some (js_add (js_mul (js_add (Finite oc) (num 1)) (num 12)) (num pc)))
   \<and> (pnameToSemitone pname = Some pc \<and> Number_of oct = num n \<and> \<bar>n\<bar> < 2 ^ 48 \<longrightarrow>
        midiFromPnameOct pname oct = Some (num ((n + 1) * 12 + pc)))
   \<and> (pnameToSemitone pname = None \<or> (\<forall>oc. Number_of oct \<noteq> Finite oc) \<longrightarrow>
        midiFromPnameOct pname oct = None)
   \<and> map (\<lambda>l. pnameToSemitone (Str (ascii l))) [''C'', ''D'', ''E'', ''F'', ''G'', ''A'', ''B'']
        = [Some 0, Some 2, Some 4, Some 5, Some 7, Some 9, Some 11]
   \<and> map (\<lambda>l. pnameToSemitone (Str (ascii l))) [''c'', ''d'', ''e'', ''f'', ''g'', ''a'', ''b'']
        = [Some 0, Some 2, Some 4, Some 5, Some 7, Some 9, Some 11]
   \<and> midiFromPnameOct (Str (ascii ''C'')) (OctString (num 4) (num 4)) = Some (Finite 60)
   \<and> midiFromPnameOct (Str (ascii ''B'')) (OctString (num 3) (num 3)) = Some (Finite 59)"
  apply (intro conjI impI)
  subgoal by (rule computeStepPitches_sorted_set)
  subgoal by (rule sorted_distinct_steps)
  subgoal by (simp add: note_pitch_plain)
  subgoal by (rule note_pitch_skipped)
  subgoal by (simp add: midiFromPnameOct_formula)
  subgoal by (simp add: midiFromPnameOct_whole)
  subgoal by (rule midiFromPnameOct_None)
  subgoal by (simp add: pnameToSemitone_table)
  subgoal by (simp add: pnameToSemitone_table)
  subgoal by (simp add: midiFromPnameOct_def pnameToSemitone_table binary64_eval)
  subgoal by (simp add: midiFromPnameOct_def pnameToSemitone_table binary64_eval)
  done

text \<open>
  For the example toolkit the step of the first five notes resolves to 60 and 67, and the
  step of the one note named h, like the empty step, to no pitch. The c whose octave is
  the string \<^verbatim>\<open>4.5\<close> resolves to 66, and a g with no octave to nothing.
\<close>

theorem pitch_resolution_witness:
  "computeStepPitches demo_toolkit [[''n1'', ''n2'', ''n3'', ''n4'', ''n5''], [''n4''], []]
     = [[60, 67], [], []]
   \<and> note_pitch demo_toolkit ''n1'' = [67]
   \<and> note_pitch demo_toolkit ''n4'' = []
   \<and> note_pitch demo_toolkit ''n5'' = []
   \<and> note_pitch demo_toolkit ''n6'' = [66]
   \<and> midiFromPnameOct (Str (ascii ''g'')) (OctString (num 4) (num 4)) = Some (Finite 67)
   \<and> midiFromPnameOct (Str (ascii ''h'')) (OctString (num 4) (num 4)) = None
   \<and> midiFromPnameOct (Str (ascii ''g'')) OctUndefined = None"
  using pitch_resolution [where tk = demo_toolkit
      and steps = "[[''n1'', ''n2'', ''n3'', ''n4'', ''n5''], [''n4''], []]"
      and noteId = "''n5''" and pname = "Str (ascii ''g'')"
      and oct = "OctString (num 4) (num 4)" and pc = 7 and oc = 4 and n = 4]
    pitch_resolution [where tk = demo_toolkit and steps = "[]" and noteId = "''n6''"
      and a = "\<lparr>attr_pname = Str (ascii ''c''), attr_oct = OctString (Finite 4.5) (num 4),
                 attr_pitch = None\<rparr>"
      and pname = "Str (ascii ''h'')" and oct = "OctString (num 4) (num 4)"]
    pitch_resolution [where tk = demo_toolkit and steps = "[]" and noteId = "''n4''"
      and pname = "Str (ascii ''g'')" and oct = OctUndefined]
  by (simp add: demo_note_pitch sorted_list_of_set_sort_remdups pnameToSemitone_table
      midiFromPnameOct_def binary64_eval)

text \<open>
  The statement of the specification, a deduplicated and ascending list, fails for the
  note-sending viewer: for a step whose notes are a G4 and two C4 in document order it
  keeps that order and both C4. It also reads the octave \<^verbatim>\<open>4.5\<close> as 4, so that the
  c of that octave is 60 and not 66.
\<close>

theorem pitch_counterexample:
  "computeStepPitches_nv demo_toolkit [[''n1'', ''n2'', ''n3''], [''n6'']]
     = Returned [[MidiNumber (Finite 67), MidiNumber (Finite 60), MidiNumber (Finite 60)],
                 [MidiNumber (Finite 60)]]"
  by (simp add: computeStepPitches_nv_def demo_midi_nv)

section \<open>The partition into steps\<close>

lemma less_append_cons: "(k::nat) < j \<Longrightarrow> p @ k # q < p @ j # q'"
  by (simp add: list_less_def lexord_append_leftI)

lemma less_append: "(p::nat list) < p @ j # q"
  by (simp add: list_less_def lexord_append_rightI)

lemma nodes_refs:
  "\<forall>n \<in> set (nodes p anc e). ref n = p \<or> (\<exists>j q. ref n = p @ j # q)"
  "\<forall>n \<in> set (nodes_list p anc k es). \<exists>j q. k \<le> j \<and> ref n = p @ j # q"
proof (induction p anc e and p anc k es rule: nodes_nodes_list.induct)
  case (1 p anc t c i x ks)
  then show ?case by fastforce
next
  case (2 p anc k)
  then show ?case by simp
next
  case (3 p anc k e es)
  show ?case
  proof
    fix n assume "n \<in> set (nodes_list p anc k (e # es))"
    then consider "n \<in> set (nodes (p @ [k]) anc e)" | "n \<in> set (nodes_list p anc (Suc k) es)"
      by auto
    then show "\<exists>j q. k \<le> j \<and> ref n = p @ j # q"
    proof cases
      case 1
      with 3(1) have "ref n = p @ [k] \<or> (\<exists>j q. ref n = (p @ [k]) @ j # q)" by blast
      then show ?thesis by auto
    next
      case 2
      with 3(2) obtain j q where "Suc k \<le> j" "ref n = p @ j # q" by blast
      then show ?thesis by (intro exI [of _ j] exI [of _ q]) simp
    qed
  qed
qed

lemma nodes_sorted:
  "sorted_wrt (<) (map ref (nodes p anc e))"
  "sorted_wrt (<) (map ref (nodes_list p anc k es))"
proof (induction p anc e and p anc k es rule: nodes_nodes_list.induct)
  case (1 p anc t c i x ks)
  have "\<forall>n \<in> set (nodes_list p ((t, c) # anc) 0 ks). p < ref n"
    using nodes_refs(2) [of p "(t, c) # anc" 0 ks] less_append by fastforce
  with 1 show ?case by simp
next
  case (2 p anc k)
  then show ?case by simp
next
  case (3 p anc k e es)
  have "ref a < ref b"
    if a: "a \<in> set (nodes (p @ [k]) anc e)" and b: "b \<in> set (nodes_list p anc (Suc k) es)" for a b
  proof -
    from a nodes_refs(1) [of "p @ [k]" anc e]
    obtain q where qa: "ref a = p @ k # q" by fastforce
    from b nodes_refs(2) [of p anc "Suc k" es]
    obtain j q' where qb: "Suc k \<le> j" "ref b = p @ j # q'" by blast
    show ?thesis unfolding qa qb(2) using qb(1) by (intro less_append_cons) simp
  qed
  with 3 show ?case by (simp add: sorted_wrt_append)
qed

lemma descendants_sorted: "sorted_wrt (<) (map ref (descendants n))"
  by (simp add: descendants_def nodes_sorted)

lemma insert_by_document: "insert_by compareDocumentOrder x ys = insort_key ref x ys"
  by (induction ys) (auto simp: compareDocumentOrder_def)

lemma sort_by_document: "sort_by compareDocumentOrder xs = sort_key ref xs"
  by (induction xs) (simp_all add: sort_by_def insert_by_document)

lemma mset_filter_disjoint:
  "(\<And>x. \<not> (A x \<and> B x)) \<Longrightarrow>
   mset (filter A xs) + mset (filter B xs) = mset (filter (\<lambda>x. A x \<or> B x) xs)"
  by (induction xs) auto

lemma sort_two_filters:
  assumes "sorted_wrt (<) (map ref xs)" and "\<And>x. \<not> (A x \<and> B x)"
  shows "sort_key ref (filter A xs @ filter B xs) = filter (\<lambda>x. A x \<or> B x) xs"
proof (rule sort_key_inj_key_eq)
  show "mset (filter A xs @ filter B xs) = mset (filter (\<lambda>x. A x \<or> B x) xs)"
    unfolding mset_append by (rule mset_filter_disjoint) (rule assms(2))
  have d: "distinct (map ref xs)" and s: "sorted (map ref xs)"
    using assms(1) by (simp_all add: strict_sorted_iff)
  from d have "inj_on ref (set xs)" by (simp add: distinct_map)
  then show "inj_on ref (set (filter A xs @ filter B xs))"
    by (rule inj_on_subset) auto
  from s show "sorted (map ref (filter (\<lambda>x. A x \<or> B x) xs))"
    by (rule sorted_filter)
qed

lemma extractStepsChordSafe_document_order:
  "extractStepsChordSafe (Some e) =
     filter (\<lambda>s. s \<noteq> [])
       (map noteheads
          (filter (\<lambda>n. is_g_chord n \<or> (is_g_note n \<and> \<not> closest_g_chord n))
             (descendants (root_node e))))"
proof -
  have "sort_key ref (filter is_g_chord (descendants (root_node e))
           @ filter (\<lambda>n. is_g_note n \<and> \<not> closest_g_chord n) (descendants (root_node e)))
        = filter (\<lambda>n. is_g_chord n \<or> (is_g_note n \<and> \<not> closest_g_chord n))
            (descendants (root_node e))"
    by (rule sort_two_filters) (auto simp: descendants_sorted closest_g_chord_def)
  then show ?thesis
    by (simp add: extractStepsChordSafe_def Let_def sort_by_document conj_commute)
qed


lemma no_empty_step: "[] \<notin> set (extractStepsChordSafe svgEl)"
  by (cases svgEl) (simp_all add: extractStepsChordSafe_def Let_def)

text \<open>
  Claim C3 (step partition), as the code has it, for \<^verbatim>\<open>extractStepsChordSafe\<close> of
  the chord-safe, the overlay and the note-sending viewer. The steps are the notehead
  lists of exactly the \<^verbatim>\<open>g.chord\<close> elements and the \<^verbatim>\<open>g.note\<close> elements that
  are not inside a \<^verbatim>\<open>g.chord\<close>, in the order in which the depth-first traversal of
  the svg meets them, with every empty notehead list dropped. The traversal lists the
  elements by strictly increasing position, the order the comparator sorts by; no
  coordinate is read. Without an svg there are no steps, and no step is ever empty.
\<close>

theorem step_partition:
  "extractStepsChordSafe (Some e) =
     filter (\<lambda>s. s \<noteq> [])
       (map noteheads
          (filter (\<lambda>n. is_g_chord n \<or> (is_g_note n \<and> \<not> closest_g_chord n))
             (descendants (root_node e))))
   \<and> sorted_wrt (<) (map ref (descendants (root_node e)))
   \<and> extractStepsChordSafe None = []
   \<and> [] \<notin> set (extractStepsChordSafe svgEl)"
  by (simp add: extractStepsChordSafe_document_order [symmetric] descendants_sorted no_empty_step)
    (simp add: extractStepsChordSafe_def)

lemmas dom_defs = descendants_def root_node_def demo_svg_def notehead_of_def is_g_chord_def
  is_g_note_def has_class_def closest_g_chord_def noteheads_def is_notehead_use_def

text \<open>
  In the example score the groupings are the chord, n3 and n4, in this order; the steps
  are the two noteheads of the chord and the notehead of n3, and n4 gives no step.
\<close>

theorem step_partition_witness:
  "extractStepsChordSafe (Some demo_svg) = [[[0, 0, 0, 0], [0, 1, 0, 0]], [[1, 0, 0]]]
   \<and> map ref (filter (\<lambda>n. is_g_chord n \<or> (is_g_note n \<and> \<not> closest_g_chord n))
                  (descendants (root_node demo_svg))) = [[0], [1], [2]]"
  using step_partition [of demo_svg "Some demo_svg"]
  by (simp add: dom_defs)

text \<open>
  The statement of the specification, an order by document position and not by
  x-coordinate, fails for \<^verbatim>\<open>buildHarmonicStepsFromSvg\<close> of the drop-in viewer: in the
  example score n3 comes after n1 and n2 in the document, and its step comes first
  because its x is smaller.
\<close>

theorem step_partition_counterexample:
  "buildHarmonicStepsFromSvg (Some demo_svg) = [[''n3''], [''n1'', ''n2'']]
   \<and> map (elemId \<circ> el) (filter is_g_note (descendants (root_node demo_svg)))
       = [Some ''n1'', Some ''n2'', Some ''n3'', Some ''n4'']"
  by (simp add: buildHarmonicStepsFromSvg_def Let_def dom_defs note_entry_def
      is_g_notehead_use_def sort_by_def Math_round_def)

end
